theory Spec2Isabelle
  imports Main
begin

section \<open>JavaScript values, exceptions and promises\<close>

text \<open>
  The validation engine of vee-validate: \<^verbatim>\<open>src/core/errorBag.js\<close> (the ordered
  collection of field errors and its selector queries) and \<^verbatim>\<open>src/core/validator.js\<close>
  (rule invocation, per-field validation, the public \<^verbatim>\<open>validate\<close> entry points).

  Conventions of the embedding.
  \<^item> A method \<^verbatim>\<open>_name\<close> of the source is the constant \<open>p_name\<close> (an Isabelle name
    starts with a letter); the fields of a record carry a short prefix (\<open>e_\<close> for a
    FieldError, \<open>f_\<close> for a Field, \<open>d_\<close> for the dictionary), since two records cannot
    share a field name.
  \<^item> Objects are modelled by value; a method that mutates \<^verbatim>\<open>this\<close> returns the new
    object. Every entry of a bag is taken to be an object of its own.
  \<^item> \<^verbatim>\<open>null\<close> and \<^verbatim>\<open>undefined\<close> of an optional string are both \<open>None\<close>: the source
    tests such fields with \<^verbatim>\<open>isNullOrUndefined\<close> or compares them with a string.
  \<^item> A \<^verbatim>\<open>throw\<close> is the \<open>Inl\<close> of a sum; a promise is modelled by how it settles.
\<close>

datatype jsval =
  JUndefined
  | JNull
  | JBool bool
  | JNum int
  | JStr string
  | JArr "jsval list"
  | JObj "(string \<times> jsval) list"

datatype error =
  TypeError string
  | ReferenceError string
  | Error string

text \<open>
  A promise is what it settles to: fulfilled with a value, rejected with an error, or
  never settled.
\<close>

datatype 'a promise = Resolved 'a | Rejected error | Pending

text \<open>
  Modelled from the spec: the helpers of \<^verbatim>\<open>./utils\<close> are not among the sources.
  \<^verbatim>\<open>isNullOrUndefined\<close> is the test its name says; \<^verbatim>\<open>find\<close> is \<^const>\<open>List.find\<close>, the
  first element that satisfies the predicate (the spec's "first match in insertion
  order"); \<^verbatim>\<open>isCallable\<close> holds of functions only, so a field that may hold a function
  is an option, \<open>None\<close> is every value that is not callable, and the test is a case
  distinction; \<^verbatim>\<open>isObject\<close> is the case distinction of a datatype in the same way.
\<close>

definition isNullOrUndefined :: "'a option \<Rightarrow> bool" where
  "isNullOrUndefined x = (x = None)"

section \<open>ErrorBag (src/core/errorBag.js)\<close>

text \<open>
  A FieldError. \<open>e_regenerate\<close> is the closure that recomputes the message; it reads
  ambient state when it is called (the dictionary and its locale, for the errors the
  validator creates), so it is a function of that state, of type \<open>'w\<close>.
\<close>

record 'w FieldError =
  e_id :: "string option"
  e_vmId :: "string option"
  e_field :: string
  e_msg :: string
  e_rule :: "string option"
  e_scope :: "string option"
  e_regenerate :: "('w \<Rightarrow> string) option"

record 'w ErrorBag =
  items :: "'w FieldError list"

definition emptyBag :: "'w ErrorBag" where
  "emptyBag = \<lparr>items = []\<rparr>"

subsection \<open>add, regenerate, update\<close>

text \<open>
  The two call shapes of \<^verbatim>\<open>add\<close>: the current one (an error or an array of errors), and
  the deprecated one with more than one argument, \<^verbatim>\<open>add(field, msg, rule, scope)\<close>,
  whose third and fourth argument may be missing.
\<close>

datatype 'w add_args =
  AddOne "'w FieldError"
  | AddMany "'w FieldError list"
  | AddLegacy string string "string option" "string option"

definition normalizeScope :: "'w FieldError \<Rightarrow> 'w FieldError" where
  "normalizeScope e = e\<lparr>e_scope := (if \<not> isNullOrUndefined (e_scope e) then e_scope e else None)\<rparr>"

fun p_normalizeError :: "'w add_args \<Rightarrow> 'w FieldError list" where
  "p_normalizeError (AddMany es) = map normalizeScope es"
| "p_normalizeError (AddOne e) = [normalizeScope e]"
| "p_normalizeError (AddLegacy fld m r s) =
     [normalizeScope \<lparr>e_id = None, e_vmId = None, e_field = fld, e_msg = m, e_rule = r,
        e_scope = (if \<not> isNullOrUndefined s then s else None), e_regenerate = None\<rparr>]"

definition add :: "'w ErrorBag \<Rightarrow> 'w add_args \<Rightarrow> 'w ErrorBag" where
  "add b a = b\<lparr>items := items b @ p_normalizeError a\<rparr>"

text \<open>
  \<^verbatim>\<open>regenerate\<close>: \<^verbatim>\<open>i.msg = isCallable(i.regenerate) ? i.regenerate() : i.msg\<close> for each
  item; \<open>w\<close> is the ambient state at the time of the call.
\<close>

definition regenerateItem :: "'w \<Rightarrow> 'w FieldError \<Rightarrow> 'w FieldError" where
  "regenerateItem w i =
     i\<lparr>e_msg := (case e_regenerate i of Some g \<Rightarrow> g w | None \<Rightarrow> e_msg i)\<rparr>"

definition regenerate :: "'w \<Rightarrow> 'w ErrorBag \<Rightarrow> 'w ErrorBag" where
  "regenerate w b = b\<lparr>items := map (regenerateItem w) (items b)\<rparr>"

text \<open>
  \<^verbatim>\<open>Array.prototype.indexOf\<close> (\<open>-1\<close> when absent) and the list left by
  \<^verbatim>\<open>splice(start, count)\<close>, with JavaScript's reading of a negative or too large start.
\<close>

fun indexOf :: "'a list \<Rightarrow> 'a \<Rightarrow> int" where
  "indexOf [] y = -1"
| "indexOf (x # xs) y =
     (if x = y then 0 else (let r = indexOf xs y in if r < 0 then -1 else r + 1))"

definition splice_js :: "'a list \<Rightarrow> int \<Rightarrow> nat \<Rightarrow> 'a list" where
  "splice_js xs start cnt =
     (let n = int (length xs);
          s = (if start < 0 then max (n + start) 0 else min start n)
      in take (nat s) xs @ drop (nat s + cnt) xs)"

definition update :: "'w ErrorBag \<Rightarrow> string \<Rightarrow> string option \<Rightarrow> 'w ErrorBag" where
  "update b ident scope =
     (case List.find (\<lambda>i. e_id i = Some ident) (items b) of
        None \<Rightarrow> b
      | Some item \<Rightarrow>
          (let idx = indexOf (items b) item;
               spliced = splice_js (items b) idx 1
           in b\<lparr>items := spliced @ [item\<lparr>e_scope := scope\<rparr>]\<rparr>))"

subsection \<open>Selectors: the candidate filters\<close>

text \<open>
  The character classes of the selector pattern
  \<^verbatim>\<open>/((?:[\w-])+\.)?((?:[\w-.])+)(:\w+)?/\<close>: \<^verbatim>\<open>\w\<close>, \<^verbatim>\<open>[\w-]\<close> and \<^verbatim>\<open>[\w-.]\<close>.
\<close>

definition word_char :: "char \<Rightarrow> bool" where
  "word_char c =
     (c \<in> set ''abcdefghijklmnopqrstuvwxyzABCDEFGHIJKLMNOPQRSTUVWXYZ0123456789_'')"

definition scope_char :: "char \<Rightarrow> bool" where
  "scope_char c = (word_char c \<or> c = CHR ''-'')"

definition name_char :: "char \<Rightarrow> bool" where
  "name_char c = (scope_char c \<or> c = CHR ''.'')"

text \<open>
  \<^verbatim>\<open>selector.match(pattern)\<close>: \<open>None\<close> is \<^verbatim>\<open>null\<close> (no match), otherwise the three groups
  of the leftmost match, as the backtracking matcher finds them. The pattern is not
  anchored, so the match starts at the first character a name can start with. There the
  scope group is tried first: a longest run of \<^verbatim>\<open>[\w-]\<close> followed by a dot, provided a
  name character follows the dot (else the matcher backtracks and the run is part of
  the name). The name is a longest run of \<^verbatim>\<open>[\w-.]\<close>; the rule is a colon and a longest
  non-empty run of \<^verbatim>\<open>\w\<close>. A group that takes no part is \<^verbatim>\<open>undefined\<close>, \<open>None\<close>.
\<close>

definition selector_match :: "string \<Rightarrow> (string option \<times> string \<times> string option) option" where
  "selector_match selector =
     (let s1 = dropWhile (\<lambda>c. \<not> name_char c) selector in
      if s1 = [] then None
      else
        (let r1 = takeWhile scope_char s1;
             after1 = dropWhile scope_char s1;
             scoped = (r1 \<noteq> [] \<and> (case after1 of
                          d # e # _ \<Rightarrow> d = CHR ''.'' \<and> name_char e
                        | _ \<Rightarrow> False));
             scope = (if scoped then Some (r1 @ ''.'') else None);
             s2 = (if scoped then tl after1 else s1);
             name = takeWhile name_char s2;
             after2 = dropWhile name_char s2;
             rule = (case after2 of
                       c # r \<Rightarrow>
                         (if c = CHR '':'' \<and> takeWhile word_char r \<noteq> []
                          then Some (CHR '':'' # takeWhile word_char r) else None)
                     | [] \<Rightarrow> None)
         in Some (scope, name, rule)))"

text \<open>\<^verbatim>\<open>s.replace(c, '')\<close> with a one-character pattern: the first occurrence goes.\<close>

definition replace_first :: "char \<Rightarrow> string \<Rightarrow> string" where
  "replace_first c s = remove1 c s"

definition startsWith :: "string \<Rightarrow> string \<Rightarrow> bool" where
  "startsWith s p = (take (length p) s = p)"

text \<open>
  What \<^verbatim>\<open>_makeCandidateFilters\<close> returns. For a selector that starts with \<^verbatim>\<open>#\<close> it is a
  single function, \<^verbatim>\<open>item => matchesRule(item) && (item => ...)\<close>, whose value is
  \<^verbatim>\<open>false\<close> or the inner function itself (which nothing calls); otherwise it is the
  object \<^verbatim>\<open>{ isPrimary, isAlt }\<close>.
\<close>

datatype 'w idresult = IdFalse | IdInner "'w FieldError \<Rightarrow> bool"

datatype 'w candidate =
  IdFilter "'w FieldError \<Rightarrow> 'w idresult"
  | Filters "'w FieldError \<Rightarrow> bool" "'w FieldError \<Rightarrow> bool"

definition matchesRule :: "string option \<Rightarrow> 'w FieldError \<Rightarrow> bool" where
  "matchesRule rule item = (case rule of None \<Rightarrow> True | Some r \<Rightarrow> e_rule item = Some r)"

definition matchesScope :: "string option \<Rightarrow> 'w FieldError \<Rightarrow> bool" where
  "matchesScope scope item =
     (case scope of
        None \<Rightarrow> isNullOrUndefined (e_scope item)
      | Some s \<Rightarrow> e_scope item = Some s)"

definition matchesName :: "string \<Rightarrow> 'w FieldError \<Rightarrow> bool" where
  "matchesName name item = (e_field item = name)"

definition isPrimary :: "string option \<Rightarrow> string \<Rightarrow> string option \<Rightarrow> 'w FieldError \<Rightarrow> bool" where
  "isPrimary scope name rule item =
     (matchesName name item \<and> matchesRule rule item \<and> matchesScope scope item)"

text \<open>
  \<^verbatim>\<open>`${scope}.${name}`\<close>: a scope that is \<^verbatim>\<open>undefined\<close> is printed as the word
  \<^verbatim>\<open>undefined\<close>.
\<close>

definition show_opt :: "string option \<Rightarrow> string" where
  "show_opt s = (case s of None \<Rightarrow> ''undefined'' | Some t \<Rightarrow> t)"

definition isAlt :: "string option \<Rightarrow> string \<Rightarrow> string option \<Rightarrow> 'w FieldError \<Rightarrow> bool" where
  "isAlt scope name rule item =
     (matchesRule rule item \<and> e_field item = show_opt scope @ ''.'' @ name)"

definition p_makeCandidateFilters :: "string \<Rightarrow> error + 'w candidate" where
  "p_makeCandidateFilters selector =
     (case selector_match selector of
        None \<Rightarrow> Inl (TypeError ''null is not iterable'')
      | Some (scope0, name, rule0) \<Rightarrow>
          (let rule = map_option (replace_first CHR '':'') rule0 in
           if startsWith selector ''#''
           then Inr (IdFilter (\<lambda>item.
                  if matchesRule rule item
                  then IdInner (\<lambda>item. startsWith (drop 1 selector) (show_opt (e_id item)))
                  else IdFalse))
           else
             (let scope = map_option (replace_first CHR ''.'') scope0
              in Inr (Filters (isPrimary scope name rule) (isAlt scope name rule)))))"

text \<open>
  \<^verbatim>\<open>const { isPrimary, isAlt } = ...\<close>: a function has neither property, so both names
  are \<^verbatim>\<open>undefined\<close> for an id selector, and calling one throws.
\<close>

fun get_isPrimary :: "'w candidate \<Rightarrow> ('w FieldError \<Rightarrow> bool) option" where
  "get_isPrimary (Filters p a) = Some p"
| "get_isPrimary (IdFilter f) = None"

fun get_isAlt :: "'w candidate \<Rightarrow> ('w FieldError \<Rightarrow> bool) option" where
  "get_isAlt (Filters p a) = Some a"
| "get_isAlt (IdFilter f) = None"

fun apply_filter :: "string \<Rightarrow> ('a \<Rightarrow> bool) option \<Rightarrow> 'a \<Rightarrow> error + bool" where
  "apply_filter nm None x = Inl (TypeError (nm @ '' is not a function''))"
| "apply_filter nm (Some f) x = Inr (f x)"

subsection \<open>Queries: \<^verbatim>\<open>_match\<close>, first, collect, remove, removeById\<close>

text \<open>
  \<^verbatim>\<open>_match\<close> reduces the items from the accumulator \<^verbatim>\<open>{}\<close>. The callback returns the
  accumulator until the last item, where it returns an item or \<^verbatim>\<open>undefined\<close>; over no
  items at all, \<^verbatim>\<open>reduce\<close> returns the accumulator it was given.
\<close>

datatype 'w matched =
  Acc "'w FieldError option" "'w FieldError option"
  | Ret "'w FieldError option"

fun match_reduce ::
  "('w FieldError \<Rightarrow> bool) option \<Rightarrow> ('w FieldError \<Rightarrow> bool) option \<Rightarrow>
   'w FieldError option \<Rightarrow> 'w FieldError option \<Rightarrow> 'w FieldError list \<Rightarrow> error + 'w matched" where
  "match_reduce isP isA primary alt [] = Inr (Acc primary alt)"
| "match_reduce isP isA primary alt (item # rest) =
     (let isLast = (rest = []) in
      case primary of
        Some p \<Rightarrow> (if isLast then Inr (Ret (Some p)) else match_reduce isP isA primary alt rest)
      | None \<Rightarrow>
          (case apply_filter ''isPrimary'' isP item of
             Inl e \<Rightarrow> Inl e
           | Inr bp \<Rightarrow>
               (case apply_filter ''isAlt'' isA item of
                  Inl e \<Rightarrow> Inl e
                | Inr ba \<Rightarrow>
                    (let primary' = (if bp then Some item else primary);
                         alt' = (if ba then Some item else alt)
                     in if \<not> isLast then match_reduce isP isA primary' alt' rest
                        else Inr (Ret (case primary' of Some p \<Rightarrow> Some p | None \<Rightarrow> alt'))))))"

definition p_match :: "'w ErrorBag \<Rightarrow> string option \<Rightarrow> error + 'w matched" where
  "p_match b selector =
     (case selector of
        None \<Rightarrow> Inr (Ret None)
      | Some sel \<Rightarrow>
          (case p_makeCandidateFilters sel of
             Inl e \<Rightarrow> Inl e
           | Inr c \<Rightarrow> match_reduce (get_isPrimary c) (get_isAlt c) None None (items b)))"

text \<open>
  \<^verbatim>\<open>first(field, scope = null)\<close> returns \<^verbatim>\<open>match && match.msg\<close>: the message of the
  item matched, and \<^verbatim>\<open>undefined\<close> (\<open>None\<close>) when \<^verbatim>\<open>_match\<close> gave \<^verbatim>\<open>undefined\<close> or the
  empty accumulator, which has no \<^verbatim>\<open>msg\<close>.
\<close>

definition make_selector :: "string \<Rightarrow> string option \<Rightarrow> string" where
  "make_selector field scope =
     (case scope of None \<Rightarrow> field | Some s \<Rightarrow> s @ ''.'' @ field)"

definition first :: "'w ErrorBag \<Rightarrow> string \<Rightarrow> string option \<Rightarrow> error + string option" where
  "first b field scope =
     (case p_match b (Some (make_selector field scope)) of
        Inl e \<Rightarrow> Inl e
      | Inr (Ret None) \<Rightarrow> Inr None
      | Inr (Ret (Some i)) \<Rightarrow> Inr (Some (e_msg i))
      | Inr (Acc p a) \<Rightarrow> Inr None)"

text \<open>
  \<^verbatim>\<open>collect(field, scope, map = true)\<close>. Without a field (\<^verbatim>\<open>undefined\<close> or the empty
  string) the errors are grouped by field name in an object created as \<^verbatim>\<open>{}\<close>; a
  field name that is a property every object inherits finds that property there, which
  has no \<^verbatim>\<open>push\<close>. With a field, the items that \<^verbatim>\<open>isPrimary\<close> accepts are listed (the
  test \<^verbatim>\<open>isNullOrUndefined(field)\<close> in between cannot hold any more).
\<close>

datatype 'w entry = Msg string | Item "'w FieldError"

datatype 'w collected =
  Grouped "(string \<times> 'w entry list) list"
  | Listed "'w entry list"

definition entry_of :: "bool \<Rightarrow> 'w FieldError \<Rightarrow> 'w entry" where
  "entry_of mp e = (if mp then Msg (e_msg e) else Item e)"

definition inherited_keys :: "string list" where
  "inherited_keys = [''constructor'', ''toString'', ''toLocaleString'', ''valueOf'',
     ''hasOwnProperty'', ''isPrototypeOf'', ''propertyIsEnumerable'', ''__proto__'',
     ''__defineGetter__'', ''__defineSetter__'', ''__lookupGetter__'', ''__lookupSetter__'']"

fun group_push :: "(string \<times> 'a list) list \<Rightarrow> string \<Rightarrow> 'a \<Rightarrow> (string \<times> 'a list) list" where
  "group_push [] k x = [(k, [x])]"
| "group_push ((k', xs) # g) k x =
     (if k' = k then (k', xs @ [x]) # g else (k', xs) # group_push g k x)"

fun collect_groups ::
  "bool \<Rightarrow> (string \<times> 'w entry list) list \<Rightarrow> 'w FieldError list \<Rightarrow> error + (string \<times> 'w entry list) list" where
  "collect_groups mp g [] = Inr g"
| "collect_groups mp g (e # es) =
     (if e_field e \<in> set inherited_keys
      then Inl (TypeError ''push is not a function'')
      else collect_groups mp (group_push g (e_field e) (entry_of mp e)) es)"

fun collect_filter ::
  "bool \<Rightarrow> ('w FieldError \<Rightarrow> bool) option \<Rightarrow> 'w FieldError list \<Rightarrow> error + 'w entry list" where
  "collect_filter mp isP [] = Inr []"
| "collect_filter mp isP (cur # rest) =
     (case apply_filter ''isPrimary'' isP cur of
        Inl e \<Rightarrow> Inl e
      | Inr keep \<Rightarrow>
          (case collect_filter mp isP rest of
             Inl e \<Rightarrow> Inl e
           | Inr es \<Rightarrow> Inr (if keep then entry_of mp cur # es else es)))"

definition collect :: "'w ErrorBag \<Rightarrow> string option \<Rightarrow> string option \<Rightarrow> bool \<Rightarrow> error + 'w collected" where
  "collect b field scope mp =
     (case field of
        None \<Rightarrow> map_sum id Grouped (collect_groups mp [] (items b))
      | Some fld \<Rightarrow>
          (if fld = [] then map_sum id Grouped (collect_groups mp [] (items b))
           else
             (case p_makeCandidateFilters (make_selector fld scope) of
                Inl e \<Rightarrow> Inl e
              | Inr c \<Rightarrow> map_sum id Listed (collect_filter mp (get_isPrimary c) (items b)))))"

text \<open>
  \<^verbatim>\<open>remove(field, scope)\<close>: the loop splices out every item that \<^verbatim>\<open>isPrimary\<close> accepts.
  A throw can only come before the first splice (from the filters, or from the first
  call of an \<^verbatim>\<open>isPrimary\<close> that is \<^verbatim>\<open>undefined\<close>), so \<open>Inl\<close> leaves the bag as it was.
\<close>

fun remove_loop :: "('w FieldError \<Rightarrow> bool) option \<Rightarrow> 'w FieldError list \<Rightarrow> error + 'w FieldError list" where
  "remove_loop isP [] = Inr []"
| "remove_loop isP (x # xs) =
     (case apply_filter ''isPrimary'' isP x of
        Inl e \<Rightarrow> Inl e
      | Inr gone \<Rightarrow>
          (case remove_loop isP xs of
             Inl e \<Rightarrow> Inl e
           | Inr ys \<Rightarrow> Inr (if gone then ys else x # ys)))"

definition remove_sel :: "'w ErrorBag \<Rightarrow> string option \<Rightarrow> string option \<Rightarrow> error + 'w ErrorBag" where
  "remove_sel b field scope =
     (case field of
        None \<Rightarrow> Inr b
      | Some fld \<Rightarrow>
          (case p_makeCandidateFilters (make_selector fld scope) of
             Inl e \<Rightarrow> Inl e
           | Inr c \<Rightarrow>
               (case remove_loop (get_isPrimary c) (items b) of
                  Inl e \<Rightarrow> Inl e
                | Inr ys \<Rightarrow> Inr (b\<lparr>items := ys\<rparr>))))"

text \<open>\<^verbatim>\<open>removeById\<close> with an array of ids (the shape the validator uses) and with one id.\<close>

definition removeByIds :: "'w ErrorBag \<Rightarrow> string option list \<Rightarrow> 'w ErrorBag" where
  "removeByIds b ids = b\<lparr>items := filter (\<lambda>i. indexOf ids (e_id i) = -1) (items b)\<rparr>"

definition removeById :: "'w ErrorBag \<Rightarrow> string \<Rightarrow> 'w ErrorBag" where
  "removeById b ident = b\<lparr>items := filter (\<lambda>i. e_id i \<noteq> Some ident) (items b)\<rparr>"

definition count :: "'w ErrorBag \<Rightarrow> nat" where
  "count b = length (items b)"

section \<open>Validator (src/core/validator.js)\<close>

subsection \<open>Rules, the dictionary, fields\<close>

text \<open>
  What a rule's validate function returns: a boolean or an object \<^verbatim>\<open>{ valid, data }\<close>
  (whose \<^verbatim>\<open>data\<close> may be missing), at once or through a promise; a promise may also
  resolve to an array of such outcomes.
\<close>

type_synonym data = "(string \<times> jsval) list"

datatype outcome = OBool bool | OObj bool "data option"

datatype settled = Single outcome | Many "outcome list"

datatype returned = Now outcome | Later "settled promise"

record rule_options =
  hasTarget :: bool
  immediate :: bool
  isDate :: bool

text \<open>\<^verbatim>\<open>{}\<close> as options: every flag is \<^verbatim>\<open>undefined\<close>, which the tests read as false.\<close>

definition noOptions :: rule_options where
  "noOptions = \<lparr>hasTarget = False, immediate = False, isDate = False\<rparr>"

record rule_entry =
  r_validate :: "(jsval \<Rightarrow> jsval list \<Rightarrow> returned) option"
  r_options :: rule_options

text \<open>
  Modelled from the spec: the dictionary is a collaborator outside the sources, known by
  its contract \<^verbatim>\<open>getFieldMessage(locale, fieldName, ruleName, [displayName, params, data])\<close>,
  \<^verbatim>\<open>getAttribute(locale, name, fallback)\<close>, \<^verbatim>\<open>getDateFormat(locale)\<close> and its property
  \<^verbatim>\<open>locale\<close>. Its functions are parameters of the model.
\<close>

record dictionary =
  d_locale :: string
  d_getFieldMessage :: "string \<Rightarrow> string \<Rightarrow> string \<Rightarrow> jsval \<times> jsval list \<times> data \<Rightarrow> string"
  d_getAttribute :: "string \<Rightarrow> jsval \<Rightarrow> jsval \<Rightarrow> jsval"
  d_getDateFormat :: "string \<Rightarrow> jsval"

text \<open>
  The state outside the validator object: the registry \<^verbatim>\<open>RULES\<close> of the module, the
  dictionary, and the binding of the identifier \<^verbatim>\<open>name\<close> in the global scope
  (\<^verbatim>\<open>validate\<close> reads \<^verbatim>\<open>name\<close> without declaring it; \<open>None\<close> is no binding, as under
  Node.js, and a browser binds it to the string \<^verbatim>\<open>window.name\<close>).
\<close>

record env =
  RULES :: "string \<Rightarrow> rule_entry option"
  dict :: dictionary
  global_name :: "string option"

text \<open>
  Modelled from the spec: the class Field is not among the sources. A field has the
  properties the validator reads; a dependency holds what reading the target field
  gives at the time of the call; \<^verbatim>\<open>setFlags\<close> merges the given flags onto the field's.
  \<open>f_rules\<close> lists the rules in the order of \<^verbatim>\<open>Object.keys(field.rules)\<close>.
\<close>

record flags =
  pending :: bool
  valid :: "bool option"
  validated :: bool

record dependency =
  dep_name :: string
  dep_alias :: "string option"
  dep_value :: jsval

record Field =
  f_id :: string
  f_name :: string
  f_scope :: "string option"
  f_vmId :: "string option"
  f_rules :: "(string \<times> jsval list) list"
  f_flags :: flags
  f_alias :: "string option"
  f_bails :: "bool option"
  f_isRequired :: bool
  f_isDisabled :: bool
  f_rejectsFalse :: bool
  f_dependencies :: "dependency list"
  f_value :: jsval

definition setFlags :: "Field \<Rightarrow> bool \<Rightarrow> bool \<Rightarrow> bool \<Rightarrow> Field" where
  "setFlags f p ok vd = f\<lparr>f_flags := \<lparr>pending = p, valid = Some ok, validated = vd\<rparr>\<rparr>"

text \<open>The rule object \<^verbatim>\<open>{ name, params, options }\<close> that \<^verbatim>\<open>_validate\<close> hands to \<^verbatim>\<open>_test\<close>.\<close>

record rule =
  rl_name :: string
  rl_params :: "jsval list"
  rl_options :: rule_options

text \<open>The result of one rule, \<^verbatim>\<open>{ valid, errors }\<close>, and of one field.\<close>

record test_result =
  t_valid :: bool
  t_errors :: "dictionary FieldError list"

record field_result =
  r_valid :: bool
  r_errors :: "dictionary FieldError list"
  r_id :: string
  r_field :: string
  r_scope :: "string option"

record Validator =
  v_strict :: bool
  v_errors :: "dictionary ErrorBag"
  v_fields :: "Field list"
  v_fastExit :: bool
  v_paused :: bool

subsection \<open>Messages and field errors\<close>

fun truthy :: "jsval \<Rightarrow> bool" where
  "truthy JUndefined = False"
| "truthy JNull = False"
| "truthy (JBool b) = b"
| "truthy (JNum n) = (n \<noteq> 0)"
| "truthy (JStr s) = (s \<noteq> [])"
| "truthy (JArr xs) = True"
| "truthy (JObj kvs) = True"

definition truthy_str :: "string option \<Rightarrow> bool" where
  "truthy_str s = (case s of None \<Rightarrow> False | Some t \<Rightarrow> t \<noteq> [])"

definition str_val :: "string option \<Rightarrow> jsval" where
  "str_val s = (case s of None \<Rightarrow> JNull | Some t \<Rightarrow> JStr t)"

definition p_getFieldDisplayName :: "dictionary \<Rightarrow> Field \<Rightarrow> jsval" where
  "p_getFieldDisplayName d f =
     (if truthy_str (f_alias f) then str_val (f_alias f)
      else d_getAttribute d (d_locale d) (JStr (f_name f)) (JStr (f_name f)))"

definition p_getLocalizedParams :: "dictionary \<Rightarrow> rule \<Rightarrow> string option \<Rightarrow> jsval list" where
  "p_getLocalizedParams d rl targetName =
     (case rl_params rl of
        p0 # ps \<Rightarrow>
          (if hasTarget (rl_options rl) \<and> truthy p0
           then (if truthy_str targetName then str_val targetName
                 else d_getAttribute d (d_locale d) p0 p0) # ps
           else rl_params rl)
      | [] \<Rightarrow> rl_params rl)"

text \<open>
  \<^verbatim>\<open>_formatErrorMessage(field, rule, data = {}, targetName = null)\<close>: a \<^verbatim>\<open>data\<close> that is
  \<^verbatim>\<open>undefined\<close> (\<open>None\<close>) takes the default, the empty object.
\<close>

definition p_formatErrorMessage ::
  "dictionary \<Rightarrow> Field \<Rightarrow> rule \<Rightarrow> data option \<Rightarrow> string option \<Rightarrow> string" where
  "p_formatErrorMessage d f rl dat targetName =
     (let name = p_getFieldDisplayName d f;
          params = p_getLocalizedParams d rl targetName
      in d_getFieldMessage d (d_locale d) (f_name f) (rl_name rl)
           (name, params, (case dat of None \<Rightarrow> [] | Some x \<Rightarrow> x)))"

definition p_createFieldError ::
  "env \<Rightarrow> Field \<Rightarrow> rule \<Rightarrow> data option \<Rightarrow> string option \<Rightarrow> dictionary FieldError" where
  "p_createFieldError en f rl dat targetName =
     \<lparr>e_id = Some (f_id f),
      e_vmId = f_vmId f,
      e_field = f_name f,
      e_msg = p_formatErrorMessage (dict en) f rl dat targetName,
      e_rule = Some (rl_name rl),
      e_scope = f_scope f,
      e_regenerate = Some (\<lambda>d. p_formatErrorMessage d f rl dat targetName)\<rparr>"

text \<open>Modelled from the spec: \<^verbatim>\<open>createError\<close> of \<^verbatim>\<open>./utils\<close> makes an error of a message.\<close>

definition createError :: "string \<Rightarrow> error" where
  "createError m = Error m"

text \<open>The quote characters of the messages.\<close>

definition squote :: char where
  "squote = CHR 0x27"

definition dquote :: char where
  "dquote = CHR 0x22"

subsection \<open>Promises\<close>

text \<open>
  \<^verbatim>\<open>p.then(f)\<close> for a callback that does not throw, and \<^verbatim>\<open>Promise.all\<close>: rejected as
  soon as one promise is, fulfilled with all the values once every promise is. (Of
  several rejections JavaScript keeps the earliest in time; the model keeps the first
  of the list.)
\<close>

fun then_promise :: "'a promise \<Rightarrow> ('a \<Rightarrow> 'b) \<Rightarrow> 'b promise" where
  "then_promise (Resolved x) k = Resolved (k x)"
| "then_promise (Rejected e) k = Rejected e"
| "then_promise Pending k = Pending"

fun promise_all :: "'a promise list \<Rightarrow> 'a list promise" where
  "promise_all [] = Resolved []"
| "promise_all (Rejected e # ps) = Rejected e"
| "promise_all (Resolved x # ps) = then_promise (promise_all ps) (\<lambda>xs. x # xs)"
| "promise_all (Pending # ps) =
     (case promise_all ps of Rejected e \<Rightarrow> Rejected e | _ \<Rightarrow> Pending)"

subsection \<open>One rule: \<^verbatim>\<open>_test\<close>\<close>

definition p_getDateFormat :: "dictionary \<Rightarrow> (string \<times> jsval list) list \<Rightarrow> jsval" where
  "p_getDateFormat d validations =
     (let format = (case map_of validations ''date_format'' of
                      None \<Rightarrow> JNull
                    | Some [] \<Rightarrow> JUndefined
                    | Some (x # xs) \<Rightarrow> x)
      in if truthy format then format else d_getDateFormat d (d_locale d))"

text \<open>
  The parameters \<^verbatim>\<open>_test\<close> passes to the rule, and the target's name: the first
  parameter of a rule with a target is the target field's value; a bare \<^verbatim>\<open>required\<close> on
  a field that rejects false gets \<^verbatim>\<open>[true]\<close>; a date rule other than \<^verbatim>\<open>date_format\<close> gets
  the date format appended.
\<close>

definition test_params :: "env \<Rightarrow> Field \<Rightarrow> rule \<Rightarrow> jsval list \<times> string option" where
  "test_params en f rl =
     (let params = rl_params rl;
          target = (if hasTarget (rl_options rl)
                    then List.find (\<lambda>d. dep_name d = rl_name rl) (f_dependencies f) else None);
          targetName = (case target of Some t \<Rightarrow> dep_alias t | None \<Rightarrow> None);
          params1 = (if hasTarget (rl_options rl)
                     then (case target of Some t \<Rightarrow> dep_value t # drop 1 params | None \<Rightarrow> params)
                     else if rl_name rl = ''required'' \<and> f_rejectsFalse f
                     then (if params \<noteq> [] then params else [JBool True])
                     else params);
          params2 = (if isDate (rl_options rl) \<and> rl_name rl \<noteq> ''date_format''
                     then params1 @ [p_getDateFormat (dict en) (f_rules f)]
                     else params1)
      in (params2, targetName))"

fun outcome_valid :: "outcome \<Rightarrow> bool" where
  "outcome_valid (OBool b) = b"
| "outcome_valid (OObj v d) = v"

text \<open>\<^verbatim>\<open>values.data\<close> of a resolved single outcome: a boolean has none.\<close>

fun outcome_data :: "outcome \<Rightarrow> data option" where
  "outcome_data (OBool b) = None"
| "outcome_data (OObj v d) = d"

text \<open>
  The promise branch of \<^verbatim>\<open>_test\<close>: \<^verbatim>\<open>data\<close> starts as \<^verbatim>\<open>{}\<close> and only the branch for a
  single outcome assigns it.
\<close>

definition resolve_values :: "env \<Rightarrow> Field \<Rightarrow> rule \<Rightarrow> string option \<Rightarrow> settled \<Rightarrow> test_result" where
  "resolve_values en f rl targetName vals =
     (let allValid = (case vals of Many vs \<Rightarrow> list_all outcome_valid vs | Single v \<Rightarrow> outcome_valid v);
          dat = (case vals of Many vs \<Rightarrow> Some [] | Single v \<Rightarrow> outcome_data v)
      in \<lparr>t_valid = allValid,
          t_errors = (if allValid then [] else [p_createFieldError en f rl dat targetName])\<rparr>)"

text \<open>The synchronous branch: a boolean becomes \<^verbatim>\<open>{ valid: result, data: {} }\<close>.\<close>

definition direct_result :: "env \<Rightarrow> Field \<Rightarrow> rule \<Rightarrow> string option \<Rightarrow> outcome \<Rightarrow> test_result" where
  "direct_result en f rl targetName res =
     (let ok = outcome_valid res;
          dat = (case res of OBool b \<Rightarrow> Some [] | OObj v d \<Rightarrow> d)
      in \<lparr>t_valid = ok,
          t_errors = (if ok then [] else [p_createFieldError en f rl dat targetName])\<rparr>)"

text \<open>
  \<^verbatim>\<open>_test\<close> returns a result or a promise of one. The second component lists the calls
  of validate functions it made, \<open>(rule, value, params)\<close>: none for a rule that is not
  registered or whose \<^verbatim>\<open>validate\<close> is not a function, where it returns a rejected
  promise.
\<close>

datatype tested = Direct test_result | Promised "test_result promise"

type_synonym invocation = "string \<times> jsval \<times> jsval list"

definition p_test :: "env \<Rightarrow> Field \<Rightarrow> jsval \<Rightarrow> rule \<Rightarrow> tested \<times> invocation list" where
  "p_test en f v rl =
     (case (case RULES en (rl_name rl) of Some r \<Rightarrow> r_validate r | None \<Rightarrow> None) of
        None \<Rightarrow>
          (Promised (Rejected (createError
             (''No such validator '' @ [squote] @ rl_name rl @ [squote] @ '' exists.''))), [])
      | Some validator \<Rightarrow>
          (let (params, targetName) = test_params en f rl;
               result = validator v params
           in (case result of
                 Later p \<Rightarrow> Promised (then_promise p (resolve_values en f rl targetName))
               | Now res \<Rightarrow> Direct (direct_result en f rl targetName res),
               [(rl_name rl, v, params)])))"

subsection \<open>One field: \<^verbatim>\<open>_shouldSkip\<close>, \<^verbatim>\<open>_shouldBail\<close>, \<^verbatim>\<open>_validate\<close>\<close>

definition p_shouldSkip :: "Field \<Rightarrow> jsval \<Rightarrow> bool" where
  "p_shouldSkip f v =
     (if f_bails f = Some False then False
      else if f_isDisabled f then True
      else \<not> f_isRequired f \<and> (v = JUndefined \<or> v = JNull \<or> v = JStr []))"

definition p_shouldBail :: "Validator \<Rightarrow> Field \<Rightarrow> bool" where
  "p_shouldBail vd f = (case f_bails f of Some b \<Rightarrow> b | None \<Rightarrow> v_fastExit vd)"

text \<open>
  \<^verbatim>\<open>RULES\<close> is a plain object, \<^verbatim>\<open>const RULES = {}\<close>, so \<^verbatim>\<open>RULES[rule]\<close> is one of three
  things: the entry stored under the name (\<open>RULES en\<close> gives it); for a name without an
  entry that every object inherits (\<^verbatim>\<open>constructor\<close>, \<^verbatim>\<open>toString\<close>, ...), the inherited
  property, a function or object that is truthy and has neither \<^verbatim>\<open>options\<close> nor
  \<^verbatim>\<open>validate\<close>; and \<^verbatim>\<open>undefined\<close> for every other name. (\<^verbatim>\<open>_test\<close> reads
  \<^verbatim>\<open>RULES[name].validate\<close> only, which is \<^verbatim>\<open>undefined\<close> in the second case as it is
  \<^verbatim>\<open>null\<close> in the third: there the two cases are one.)
\<close>

datatype looked = Entry rule_entry | Inherited | Missing

definition lookup_rule :: "env \<Rightarrow> string \<Rightarrow> looked" where
  "lookup_rule en r =
     (case RULES en r of
        Some x \<Rightarrow> Entry x
      | None \<Rightarrow> (if r \<in> set inherited_keys then Inherited else Missing))"

text \<open>
  The rules of a pass: \<^verbatim>\<open>Object.keys(field.rules).filter(...)\<close>, with the callback
  \<^verbatim>\<open>if (!initial || !RULES[rule]) return true; return RULES[rule].options.immediate\<close>.
  On an initial pass a registered rule runs only if it is immediate, and a name that
  finds an inherited property makes the callback throw: \<^verbatim>\<open>options\<close> is \<^verbatim>\<open>undefined\<close>
  there. The throw comes before any rule is tested.
\<close>

definition runs_on_pass :: "env \<Rightarrow> bool \<Rightarrow> string \<Rightarrow> error + bool" where
  "runs_on_pass en initial r =
     (if \<not> initial then Inr True
      else (case lookup_rule en r of
              Missing \<Rightarrow> Inr True
            | Entry x \<Rightarrow> Inr (immediate (r_options x))
            | Inherited \<Rightarrow> Inl (TypeError ''cannot read immediate of undefined'')))"

fun filter_rules :: "env \<Rightarrow> bool \<Rightarrow> string list \<Rightarrow> error + string list" where
  "filter_rules en initial [] = Inr []"
| "filter_rules en initial (r # rs) =
     (case runs_on_pass en initial r of
        Inl e \<Rightarrow> Inl e
      | Inr keep \<Rightarrow>
          (case filter_rules en initial rs of
             Inl e \<Rightarrow> Inl e
           | Inr ks \<Rightarrow> Inr (if keep then r # ks else ks)))"

definition selected_rules :: "env \<Rightarrow> Field \<Rightarrow> bool \<Rightarrow> error + string list" where
  "selected_rules en f initial = filter_rules en initial (map fst (f_rules f))"

text \<open>
  The rule object of the scan. Its options are \<^verbatim>\<open>RULES[rule] ? RULES[rule].options : {}\<close>;
  for a name that finds an inherited property they are \<^verbatim>\<open>undefined\<close>, which nothing
  reads, since \<^verbatim>\<open>_test\<close> returns its rejected promise before it looks at the options.
\<close>

definition rule_of :: "env \<Rightarrow> Field \<Rightarrow> string \<Rightarrow> rule" where
  "rule_of en f r =
     \<lparr>rl_name = r,
      rl_params = (case map_of (f_rules f) r of Some ps \<Rightarrow> ps | None \<Rightarrow> []),
      rl_options = (case RULES en r of Some x \<Rightarrow> r_options x | None \<Rightarrow> noOptions)\<rparr>"

text \<open>
  The scan \<^verbatim>\<open>.some(rule => ...)\<close> with its three variables \<^verbatim>\<open>promises\<close>, \<^verbatim>\<open>errors\<close> and
  \<^verbatim>\<open>isExitEarly\<close>, and the calls made so far. The callback returns \<^verbatim>\<open>isExitEarly\<close>, and
  \<^verbatim>\<open>some\<close> stops at the first rule for which that is true.
\<close>

record scan =
  promises :: "test_result promise list"
  errors :: "dictionary FieldError list"
  isExitEarly :: bool
  invoked :: "invocation list"

definition scan0 :: scan where
  "scan0 = \<lparr>promises = [], errors = [], isExitEarly = False, invoked = []\<rparr>"

fun scan_rules :: "env \<Rightarrow> Validator \<Rightarrow> Field \<Rightarrow> jsval \<Rightarrow> string list \<Rightarrow> scan \<Rightarrow> scan" where
  "scan_rules en vd f v [] st = st"
| "scan_rules en vd f v (r # rest) st =
     (let (result, calls) = p_test en f v (rule_of en f r);
          st1 = st\<lparr>invoked := invoked st @ calls\<rparr>
      in case result of
           Promised p \<Rightarrow> scan_rules en vd f v rest (st1\<lparr>promises := promises st1 @ [p]\<rparr>)
         | Direct res \<Rightarrow>
             (if \<not> t_valid res \<and> p_shouldBail vd f
              then st1\<lparr>errors := errors st1 @ t_errors res, isExitEarly := True\<rparr>
              else scan_rules en vd f v rest (st1\<lparr>promises := promises st1 @ [Resolved res]\<rparr>)))"

text \<open>The reduction of the awaited results, from \<^verbatim>\<open>{ valid: true, errors, ... }\<close>.\<close>

definition reduce_step :: "field_result \<Rightarrow> test_result \<Rightarrow> field_result" where
  "reduce_step prev v =
     prev\<lparr>r_errors := (if \<not> t_valid v then r_errors prev @ t_errors v else r_errors prev),
          r_valid := (r_valid prev \<and> t_valid v)\<rparr>"

definition field_result_of :: "Field \<Rightarrow> bool \<Rightarrow> dictionary FieldError list \<Rightarrow> field_result" where
  "field_result_of f ok es =
     \<lparr>r_valid = ok, r_errors = es, r_id = f_id f, r_field = f_name f, r_scope = f_scope f\<rparr>"

text \<open>
  \<^verbatim>\<open>_validate\<close> returns a promise (\<open>Inr\<close>), or throws when the filter of the rules does
  (\<open>Inl\<close>).
\<close>

definition p_validate ::
  "env \<Rightarrow> Validator \<Rightarrow> Field \<Rightarrow> jsval \<Rightarrow> bool \<Rightarrow>
   (error + field_result promise) \<times> invocation list" where
  "p_validate en vd f v initial =
     (if p_shouldSkip f v then (Inr (Resolved (field_result_of f True [])), [])
      else
        (case selected_rules en f initial of
           Inl e \<Rightarrow> (Inl e, [])
         | Inr rules \<Rightarrow>
             (let st = scan_rules en vd f v rules scan0 in
              if isExitEarly st
              then (Inr (Resolved (field_result_of f False (errors st))), invoked st)
              else (Inr (then_promise (promise_all (promises st))
                      (\<lambda>results. foldl reduce_step (field_result_of f True (errors st)) results)),
                    invoked st))))"

subsection \<open>FieldBag\<close>

text \<open>
  Modelled from the spec: the class FieldBag is not among the sources. It is an ordered
  sequence of fields; a matcher is a criteria object \<^verbatim>\<open>{ id?, name?, scope?, vmId? }\<close> in
  which a criterion that is \<^verbatim>\<open>undefined\<close> is a wildcard; \<^verbatim>\<open>find\<close> returns the first match
  in insertion order or null, \<^verbatim>\<open>filter\<close> all matches in order, and an array of matchers
  matches a field that satisfies any one of them. A field found is returned with its
  position, which stands for the reference to the object.
\<close>

datatype 'a criterion = Wildcard | Exactly 'a

record matcher =
  m_id :: "string criterion"
  m_name :: "string criterion"
  m_scope :: "string option criterion"
  m_vmId :: "string option criterion"

definition anyField :: matcher where
  "anyField = \<lparr>m_id = Wildcard, m_name = Wildcard, m_scope = Wildcard, m_vmId = Wildcard\<rparr>"

fun meets :: "'a criterion \<Rightarrow> 'a \<Rightarrow> bool" where
  "meets Wildcard x = True"
| "meets (Exactly y) x = (x = y)"

definition field_matches :: "matcher \<Rightarrow> Field \<Rightarrow> bool" where
  "field_matches m f =
     (meets (m_id m) (f_id f) \<and> meets (m_name m) (f_name f) \<and>
      meets (m_scope m) (f_scope f) \<and> meets (m_vmId m) (f_vmId f))"

fun find_from :: "nat \<Rightarrow> ('a \<Rightarrow> bool) \<Rightarrow> 'a list \<Rightarrow> (nat \<times> 'a) option" where
  "find_from k P [] = None"
| "find_from k P (x # xs) = (if P x then Some (k, x) else find_from (Suc k) P xs)"

definition fields_find :: "Field list \<Rightarrow> matcher \<Rightarrow> (nat \<times> Field) option" where
  "fields_find fs m = find_from 0 (field_matches m) fs"

definition fields_filter :: "Field list \<Rightarrow> matcher list \<Rightarrow> Field list" where
  "fields_filter fs ms = filter (\<lambda>f. list_ex (\<lambda>m. field_matches m f) ms) fs"

subsection \<open>Resolving a field, and a field that is not found\<close>

text \<open>
  \<^verbatim>\<open>_resolveField(name, scope, uid)\<close>: by id for \<^verbatim>\<open>#id\<close>; by name and scope when a scope
  is given; for a dotted name, first with the text before the first dot as scope; at
  last by name among the fields without scope.
\<close>

definition p_resolveField ::
  "Validator \<Rightarrow> string \<Rightarrow> string option \<Rightarrow> string option criterion \<Rightarrow> (nat \<times> Field) option" where
  "p_resolveField vd name scope uid =
     (if take 1 name = ''#''
      then fields_find (v_fields vd) (anyField\<lparr>m_id := Exactly (drop 1 name)\<rparr>)
      else if \<not> isNullOrUndefined scope
      then fields_find (v_fields vd)
             (anyField\<lparr>m_name := Exactly name, m_scope := Exactly scope, m_vmId := uid\<rparr>)
      else
        (let dotted =
               (if CHR ''.'' \<in> set name
                then fields_find (v_fields vd)
                       (anyField\<lparr>m_name := Exactly (drop 1 (dropWhile (\<lambda>c. c \<noteq> CHR ''.'') name)),
                                 m_scope := Exactly (Some (takeWhile (\<lambda>c. c \<noteq> CHR ''.'') name)),
                                 m_vmId := uid\<rparr>)
                else None)
         in case dotted of
              Some found \<Rightarrow> Some found
            | None \<Rightarrow>
                fields_find (v_fields vd)
                  (anyField\<lparr>m_name := Exactly name, m_scope := Exactly None, m_vmId := uid\<rparr>)))"

definition p_handleFieldNotFound :: "Validator \<Rightarrow> string \<Rightarrow> string option \<Rightarrow> bool promise" where
  "p_handleFieldNotFound vd name scope =
     (if \<not> v_strict vd then Resolved True
      else
        (let fullName = (case scope of None \<Rightarrow> name | Some s \<Rightarrow> s @ ''.'' @ name)
         in Rejected (createError
              (''Validating a non-existent field: '' @ [dquote] @ fullName @ [dquote] @
               ''. Use '' @ [dquote] @ ''attach()'' @ [dquote] @ '' first.''))))"

subsection \<open>Writing results: \<^verbatim>\<open>_handleValidationResults\<close>\<close>

text \<open>
  The errors of the fields validated are removed by id, then by name and scope (which
  throws for a name the selector pattern does not match, or one that starts with
  \<^verbatim>\<open>#\<close>), the new errors are added, and the flags of the fields are set. A throw leaves
  the state as the statements before it made it.
\<close>

fun remove_each ::
  "dictionary ErrorBag \<Rightarrow> field_result list \<Rightarrow> error option \<times> dictionary ErrorBag" where
  "remove_each b [] = (None, b)"
| "remove_each b (r # rs) =
     (case remove_sel b (Some (r_field r)) (r_scope r) of
        Inl e \<Rightarrow> (Some e, b)
      | Inr b' \<Rightarrow> remove_each b' rs)"

definition flag_fields :: "Field list \<Rightarrow> field_result list \<Rightarrow> Field list" where
  "flag_fields fs results =
     (let matchers = map (\<lambda>r. anyField\<lparr>m_id := Exactly (r_id r)\<rparr>) results in
      map (\<lambda>f. if list_ex (\<lambda>m. field_matches m f) matchers
               then (case List.find (\<lambda>r. r_id r = f_id f) results of
                       Some r \<Rightarrow> setFlags f False (r_valid r) True
                     | None \<Rightarrow> f)
               else f) fs)"

definition p_handleValidationResults ::
  "Validator \<Rightarrow> field_result list \<Rightarrow> error option \<times> Validator" where
  "p_handleValidationResults vd results =
     (let b1 = removeByIds (v_errors vd) (map (\<lambda>r. Some (r_id r)) results) in
      case remove_each b1 results of
        (Some e, b2) \<Rightarrow> (Some e, vd\<lparr>v_errors := b2\<rparr>)
      | (None, b2) \<Rightarrow>
          (let b3 = add b2 (AddMany (concat (map r_errors results)))
           in (None, vd\<lparr>v_errors := b3, v_fields := flag_fields (v_fields vd) results\<rparr>)))"

text \<open>
  The callback \<^verbatim>\<open>results => { if (!silent) handle(results); return every valid }\<close>
  after a promise of results: a throw in the callback rejects the promise returned.
\<close>

definition then_handle ::
  "Validator \<Rightarrow> bool \<Rightarrow> field_result list promise \<Rightarrow> bool promise \<times> Validator" where
  "then_handle vd quiet p =
     (case p of
        Rejected e \<Rightarrow> (Rejected e, vd)
      | Pending \<Rightarrow> (Pending, vd)
      | Resolved results \<Rightarrow>
          (if quiet then (Resolved (list_all r_valid results), vd)
           else
             (case p_handleValidationResults vd results of
                (Some e, vd') \<Rightarrow> (Rejected e, vd')
              | (None, vd') \<Rightarrow> (Resolved (list_all r_valid results), vd'))))"

subsection \<open>The entry points: validate, validateAll, validateScopes\<close>

record options =
  silent :: bool
  vmId :: "string option criterion"

definition noOpts :: options where
  "noOpts = \<lparr>silent = False, vmId = Wildcard\<rparr>"

text \<open>The argument \<^verbatim>\<open>values\<close> of \<^verbatim>\<open>validateAll\<close>: a scope, a mapping, names, or none.\<close>

datatype values_arg =
  VScope string
  | VObject "(string \<times> jsval) list"
  | VNames "string list"
  | VNone

text \<open>
  What an entry point gives back: the promise it returns (\<open>Inl\<close> when it throws instead
  of returning), the validator as it is once the promise has settled, and the calls of
  validate functions made.
\<close>

type_synonym answer = "(error + bool promise) \<times> Validator \<times> invocation list"

text \<open>
  \<^verbatim>\<open>fields.map(field => this._validate(field, ...))\<close>: the promises of the fields in
  order; a call that throws ends the mapping.
\<close>

fun run_fields ::
  "env \<Rightarrow> Validator \<Rightarrow> (Field \<times> jsval) list \<Rightarrow>
   (error + field_result promise list) \<times> invocation list" where
  "run_fields en vd [] = (Inr [], [])"
| "run_fields en vd ((f, v) # rest) =
     (case p_validate en vd f v False of
        (Inl e, calls) \<Rightarrow> (Inl e, calls)
      | (Inr p, calls) \<Rightarrow>
          (case run_fields en vd rest of
             (Inl e, more_calls) \<Rightarrow> (Inl e, calls @ more_calls)
           | (Inr ps, more_calls) \<Rightarrow> (Inr (p # ps), calls @ more_calls)))"

definition validate_fields ::
  "env \<Rightarrow> Validator \<Rightarrow> bool \<Rightarrow> (Field \<times> jsval) list \<Rightarrow> answer" where
  "validate_fields en vd quiet fvs =
     (case run_fields en vd fvs of
        (Inl e, calls) \<Rightarrow> (Inl e, vd, calls)
      | (Inr ps, calls) \<Rightarrow>
          (let (p, vd') = then_handle vd quiet (promise_all ps)
           in (Inr p, vd', calls)))"

definition validateAll :: "env \<Rightarrow> Validator \<Rightarrow> values_arg \<Rightarrow> options \<Rightarrow> answer" where
  "validateAll en vd vals opts =
     (if v_paused vd then (Inr (Resolved True), vd, [])
      else
        (let matchers =
               (case vals of
                  VScope sc \<Rightarrow> [anyField\<lparr>m_scope := Exactly (Some sc), m_vmId := vmId opts\<rparr>]
                | VObject kvs \<Rightarrow>
                    map (\<lambda>k. anyField\<lparr>m_name := Exactly k, m_vmId := vmId opts,
                                       m_scope := Exactly None\<rparr>) (map fst kvs)
                | VNames ks \<Rightarrow> map (\<lambda>k. anyField\<lparr>m_name := Exactly k, m_vmId := vmId opts\<rparr>) ks
                | VNone \<Rightarrow> [anyField\<lparr>m_scope := Exactly None, m_vmId := vmId opts\<rparr>]);
             given = (\<lambda>f. case vals of
                             VObject kvs \<Rightarrow> (case map_of kvs (f_name f) of
                                               Some x \<Rightarrow> x | None \<Rightarrow> JUndefined)
                           | _ \<Rightarrow> f_value f)
         in validate_fields en vd (silent opts)
              (map (\<lambda>f. (f, given f)) (fields_filter (v_fields vd) matchers))))"

definition validateScopes :: "env \<Rightarrow> Validator \<Rightarrow> options \<Rightarrow> answer" where
  "validateScopes en vd opts =
     (if v_paused vd then (Inr (Resolved True), vd, [])
      else validate_fields en vd (silent opts)
             (map (\<lambda>f. (f, f_value f))
                (fields_filter (v_fields vd) [anyField\<lparr>m_vmId := vmId opts\<rparr>])))"

text \<open>
  The test \<^verbatim>\<open>/^(.+)\.\*$/\<close> of \<^verbatim>\<open>validate\<close>: the descriptor ends in \<^verbatim>\<open>.*\<close> after at least
  one character, none of them a line terminator (of the four, line feed and carriage
  return are single characters of a \<open>string\<close>); the group is the text before.
\<close>

definition scope_wildcard :: "string \<Rightarrow> string option" where
  "scope_wildcard s =
     (let n = length s; pre = take (n - 2) s in
      if 3 \<le> n \<and> drop (n - 2) s = ''.*'' \<and> CHR 0x0A \<notin> set pre \<and> CHR 0x0D \<notin> set pre
      then Some pre else None)"

definition validate :: "env \<Rightarrow> Validator \<Rightarrow> string option \<Rightarrow> jsval \<Rightarrow> options \<Rightarrow> answer" where
  "validate en vd fieldDescriptor v opts =
     (if v_paused vd then (Inr (Resolved True), vd, [])
      else
        (case fieldDescriptor of
           None \<Rightarrow> validateScopes en vd opts
         | Some fd \<Rightarrow>
             (if fd = ''*'' then validateAll en vd VNone opts
              else
                (case scope_wildcard fd of
                   Some matched \<Rightarrow> validateAll en vd (VScope matched) noOpts
                 | None \<Rightarrow>
                     (case p_resolveField vd fd None Wildcard of
                        None \<Rightarrow>
                          (case global_name en of
                             None \<Rightarrow> (Inl (ReferenceError ''name is not defined''), vd, [])
                           | Some name \<Rightarrow> (Inr (p_handleFieldNotFound vd name None), vd, []))
                      | Some (k, field) \<Rightarrow>
                          (let field1 = (if \<not> silent opts
                                         then field\<lparr>f_flags := (f_flags field)\<lparr>pending := True\<rparr>\<rparr>
                                         else field);
                               vd1 = vd\<lparr>v_fields := (v_fields vd)[k := field1]\<rparr>;
                               v1 = (if v = JUndefined then f_value field1 else v)
                           in case p_validate en vd1 field1 v1 False of
                                (Inl e, calls) \<Rightarrow> (Inl e, vd1, calls)
                              | (Inr p, calls) \<Rightarrow>
                                  (let (q, vd2) = then_handle vd1 (silent opts)
                                                    (then_promise p (\<lambda>result. [result]))
                                   in (Inr q, vd2, calls))))))))"

subsection \<open>Vocabulary of the statements\<close>

text \<open>
  For a rule name of the pass: what \<^verbatim>\<open>_test\<close> returns for it and the calls it makes;
  whether that is a result known at scan time and invalid; and the promise pushed for
  it when the scan goes on (\<^verbatim>\<open>new Promise(resolve => resolve(result))\<close> for a result).
\<close>

definition test_of :: "env \<Rightarrow> Field \<Rightarrow> jsval \<Rightarrow> string \<Rightarrow> tested" where
  "test_of en f v r = fst (p_test en f v (rule_of en f r))"

definition calls_of :: "env \<Rightarrow> Field \<Rightarrow> jsval \<Rightarrow> string \<Rightarrow> invocation list" where
  "calls_of en f v r = snd (p_test en f v (rule_of en f r))"

fun sync_invalid :: "tested \<Rightarrow> bool" where
  "sync_invalid (Direct res) = (\<not> t_valid res)"
| "sync_invalid (Promised p) = False"

fun promisify :: "tested \<Rightarrow> test_result promise" where
  "promisify (Direct res) = Resolved res"
| "promisify (Promised p) = p"


definition has_validator :: "env \<Rightarrow> string \<Rightarrow> bool" where
  "has_validator en r =
     (case RULES en r of Some x \<Rightarrow> r_validate x \<noteq> None | None \<Rightarrow> False)"

section \<open>Sample data\<close>

text \<open>
  A dictionary whose messages show the field, the rule and the keys of the data; a
  registry with two synchronous rules and three promise rules (one resolving to a
  boolean, one resolving to an array, one never settling); a field, a validator and an
  error to start from.
\<close>

definition sample_dict :: dictionary where
  "sample_dict =
     \<lparr>d_locale = ''en'',
      d_getFieldMessage =
        (\<lambda>loc fld rl (name, params, dat). fld @ '':'' @ rl @ '':'' @ concat (map fst dat)),
      d_getAttribute = (\<lambda>loc key fallback. fallback),
      d_getDateFormat = (\<lambda>loc. JStr ''DD/MM/YYYY'')\<rparr>"

definition rule_entry_of :: "(jsval \<Rightarrow> jsval list \<Rightarrow> returned) \<Rightarrow> rule_entry" where
  "rule_entry_of g =
     \<lparr>r_validate = Some g,
      r_options = \<lparr>hasTarget = False, immediate = True, isDate = False\<rparr>\<rparr>"

definition sample_rules :: "string \<Rightarrow> rule_entry option" where
  "sample_rules =
     map_of
       [(''required'', rule_entry_of (\<lambda>v ps. Now (OBool (truthy v)))),
        (''never'', rule_entry_of (\<lambda>v ps. Now (OBool False))),
        (''remote'', rule_entry_of (\<lambda>v ps. Later (Resolved (Single (OBool False))))),
        (''batch'', rule_entry_of (\<lambda>v ps. Later (Resolved
           (Many [OObj False (Some [(''taken'', JBool True)]), OBool True])))),
        (''stalled'', rule_entry_of (\<lambda>v ps. Later Pending))]"

definition sample_env :: "string option \<Rightarrow> env" where
  "sample_env nm = \<lparr>RULES = sample_rules, dict = sample_dict, global_name = nm\<rparr>"

definition sample_field :: "string list \<Rightarrow> Field" where
  "sample_field rs =
     \<lparr>f_id = ''f1'', f_name = ''email'', f_scope = None, f_vmId = None,
      f_rules = map (\<lambda>r. (r, [])) rs,
      f_flags = \<lparr>pending = False, valid = None, validated = False\<rparr>,
      f_alias = None, f_bails = None, f_isRequired = True, f_isDisabled = False,
      f_rejectsFalse = False, f_dependencies = [], f_value = JStr []\<rparr>"

definition sample_validator :: "Field list \<Rightarrow> Validator" where
  "sample_validator fs =
     \<lparr>v_strict = True, v_errors = emptyBag, v_fields = fs, v_fastExit = True,
      v_paused = False\<rparr>"

definition sample_error ::
  "string \<Rightarrow> string \<Rightarrow> string option \<Rightarrow> string \<Rightarrow> dictionary FieldError" where
  "sample_error i fld sc m =
     \<lparr>e_id = Some i, e_vmId = None, e_field = fld, e_msg = m, e_rule = Some ''required'',
      e_scope = sc, e_regenerate = None\<rparr>"

section \<open>Auxiliary lemmas\<close>

lemmas sample_defs = sample_dict_def rule_entry_of_def sample_rules_def sample_env_def
  sample_field_def sample_validator_def sample_error_def emptyBag_def

lemmas validate_defs = p_validate_def p_shouldSkip_def p_shouldBail_def selected_rules_def
  lookup_rule_def runs_on_pass_def scan0_def rule_of_def p_test_def test_params_def direct_result_def resolve_values_def
  p_createFieldError_def p_formatErrorMessage_def p_getFieldDisplayName_def
  p_getLocalizedParams_def field_result_of_def reduce_step_def truthy_str_def str_val_def
  test_of_def calls_of_def

lemmas bag_defs = first_def p_match_def collect_def remove_sel_def make_selector_def
  p_makeCandidateFilters_def selector_match_def name_char_def scope_char_def word_char_def
  startsWith_def replace_first_def isPrimary_def isAlt_def matchesName_def matchesRule_def
  matchesScope_def isNullOrUndefined_def show_opt_def entry_of_def Let_def

lemmas entry_defs = validate_def validateAll_def validateScopes_def validate_fields_def
  then_handle_def p_handleValidationResults_def p_resolveField_def fields_find_def
  fields_filter_def field_matches_def anyField_def scope_wildcard_def noOpts_def
  removeByIds_def add_def normalizeScope_def flag_fields_def setFlags_def
  p_handleFieldNotFound_def createError_def

subsection \<open>Lists\<close>

lemma find_first_split:
  "P x \<Longrightarrow> list_all (\<lambda>i. \<not> P i) pre \<Longrightarrow> List.find P (pre @ x # post) = Some x"
  by (induction pre) auto

lemma find_none_all: "list_all (\<lambda>i. \<not> P i) xs \<Longrightarrow> List.find P xs = None"
  by (induction xs) auto

lemma find_append_case:
  "List.find P (xs @ ys) = (case List.find P xs of Some x \<Rightarrow> Some x | None \<Rightarrow> List.find P ys)"
  by (induction xs) auto



lemma indexOf_split: "x \<notin> set pre \<Longrightarrow> indexOf (pre @ x # post) x = int (length pre)"
  by (induction pre) (auto simp: Let_def)

lemma splice_js_split: "splice_js (pre @ x # post) (int (length pre)) (Suc 0) = pre @ post"
  by (simp add: splice_js_def Let_def)

subsection \<open>The error bag\<close>

lemma update_split:
  assumes "items b = pre @ item # post" and "e_id item = Some ident"
    and "list_all (\<lambda>i. e_id i \<noteq> Some ident) pre"
  shows "update b ident sc = b\<lparr>items := pre @ post @ [item\<lparr>e_scope := sc\<rparr>]\<rparr>"
proof -
  have f: "List.find (\<lambda>i. e_id i = Some ident) (items b) = Some item"
    using assms by (simp add: find_first_split)
  have "item \<notin> set pre" using assms(2,3) by (auto simp: list_all_iff)
  then have "indexOf (items b) item = int (length pre)"
    using assms(1) by (simp add: indexOf_split)
  then show ?thesis using f assms(1) by (simp add: update_def splice_js_split)
qed

text \<open>
  With both filters defined, the reduction over a non-empty list returns the first item
  the primary filter accepts, else the last one the alt filter accepts.
\<close>

lemma match_reduce_filters:
  "xs \<noteq> [] \<Longrightarrow>
   match_reduce (Some P) (Some A) prim alt xs =
     Inr (Ret (case prim of
                 Some p \<Rightarrow> Some p
               | None \<Rightarrow>
                   (case List.find P xs of
                      Some p \<Rightarrow> Some p
                    | None \<Rightarrow> (case List.find A (rev xs) of Some a \<Rightarrow> Some a | None \<Rightarrow> alt))))"
proof (induction xs arbitrary: prim alt)
  case Nil
  then show ?case by simp
next
  case (Cons x xs)
  show ?case
  proof (cases "xs = []")
    case True
    then show ?thesis by (cases prim) (auto simp: Let_def)
  next
    case False
    note IH = Cons.IH[OF False]
    show ?thesis
    proof (cases prim)
      case (Some p)
      then show ?thesis using False IH by (simp add: Let_def)
    next
      case None
      then show ?thesis using False IH
        by (auto simp: Let_def find_append_case split: option.splits)
    qed
  qed
qed

lemma filters_of_selector:
  "selector_match sel = Some (sc0, nm, rl0) \<Longrightarrow> \<not> startsWith sel ''#'' \<Longrightarrow>
   p_makeCandidateFilters sel =
     Inr (Filters (isPrimary (map_option (replace_first CHR ''.'') sc0) nm
                     (map_option (replace_first CHR '':'') rl0))
                  (isAlt (map_option (replace_first CHR ''.'') sc0) nm
                     (map_option (replace_first CHR '':'') rl0)))"
  by (simp add: p_makeCandidateFilters_def Let_def)

text \<open>The pattern finds no match exactly in a selector without a name character.\<close>

lemma selector_match_None_iff:
  "selector_match sel = None \<longleftrightarrow> list_all (\<lambda>c. \<not> name_char c) sel"
proof -
  have "dropWhile (\<lambda>c. \<not> name_char c) sel = [] \<longleftrightarrow> list_all (\<lambda>c. \<not> name_char c) sel"
    by (simp add: list_all_iff)
  then show ?thesis
    by (auto simp: selector_match_def Let_def split: if_splits)
qed

lemma match_reduce_undefined:
  "xs \<noteq> [] \<Longrightarrow>
   match_reduce None isA None alt xs = Inl (TypeError ''isPrimary is not a function'')"
  by (cases xs) (simp_all add: Let_def)

lemma collect_filter_undefined:
  "xs \<noteq> [] \<Longrightarrow> collect_filter mp None xs = Inl (TypeError ''isPrimary is not a function'')"
  by (cases xs) simp_all

lemma remove_loop_undefined:
  "xs \<noteq> [] \<Longrightarrow> remove_loop None xs = Inl (TypeError ''isPrimary is not a function'')"
  by (cases xs) simp_all

lemma id_filters:
  "startsWith sel ''#'' \<Longrightarrow> selector_match sel \<noteq> None \<Longrightarrow>
   \<exists>g. p_makeCandidateFilters sel = Inr (IdFilter g)"
  by (auto simp: p_makeCandidateFilters_def Let_def)

subsection \<open>The rules of a pass\<close>

text \<open>
  The filter throws exactly on an initial pass over a rule name that has no entry in
  \<^verbatim>\<open>RULES\<close> and that every object inherits; otherwise it keeps every rule on a pass that
  is not initial, and on an initial pass the rules without an entry and the immediate
  ones.
\<close>

lemma filter_rules_cases:
  "filter_rules en initial rs =
     (if initial \<and> list_ex (\<lambda>r. RULES en r = None \<and> r \<in> set inherited_keys) rs
      then Inl (TypeError ''cannot read immediate of undefined'')
      else Inr (filter (\<lambda>r. \<not> initial \<or>
                  (case RULES en r of None \<Rightarrow> True | Some x \<Rightarrow> immediate (r_options x))) rs))"
  by (induction rs) (auto simp: runs_on_pass_def lookup_rule_def split: option.splits)

lemma selected_rules_not_initial:
  "selected_rules en f False = Inr (map fst (f_rules f))"
  by (simp add: selected_rules_def filter_rules_cases)


text \<open>
  The field with the rules \<^verbatim>\<open>constructor\<close>, which is not registered, and \<^verbatim>\<open>never\<close>. On an
  initial pass \<^verbatim>\<open>RULES['constructor']\<close> is the inherited function, its \<^verbatim>\<open>options\<close> are
  \<^verbatim>\<open>undefined\<close>, and \<^verbatim>\<open>_validate\<close> throws without a call. On any other pass the filter
  keeps both names, \<^verbatim>\<open>_test\<close> gives a rejected promise for the first without a call, and
  the scan bails at \<^verbatim>\<open>never\<close>.
\<close>

lemma validate_inherited_name:
  "p_validate (sample_env None) (sample_validator [])
      (sample_field [''constructor'', ''never'']) (JStr ''a'') True
     = (Inl (TypeError ''cannot read immediate of undefined''), [])
   \<and> test_of (sample_env None) (sample_field [''constructor'', ''never'']) (JStr ''a'')
        ''constructor''
     = Promised (Rejected (createError
         (''No such validator '' @ [squote] @ ''constructor'' @ [squote] @ '' exists.'')))
   \<and> (case p_validate (sample_env None) (sample_validator [])
          (sample_field [''constructor'', ''never'']) (JStr ''a'') False of
        (Inr (Resolved r), calls) \<Rightarrow>
          \<not> r_valid r \<and> map e_rule (r_errors r) = [Some ''never''] \<and>
          calls = [(''never'', JStr ''a'', [])]
      | _ \<Rightarrow> False)"
  by (simp add: sample_defs validate_defs inherited_keys_def)

subsection \<open>The scan of the rules\<close>

lemma scan_rules_Cons:
  "scan_rules en vd f v (r # rest) st =
     (let st1 = st\<lparr>invoked := invoked st @ calls_of en f v r\<rparr> in
      case test_of en f v r of
        Promised p \<Rightarrow> scan_rules en vd f v rest (st1\<lparr>promises := promises st1 @ [p]\<rparr>)
      | Direct res \<Rightarrow>
          (if \<not> t_valid res \<and> p_shouldBail vd f
           then st1\<lparr>errors := errors st1 @ t_errors res, isExitEarly := True\<rparr>
           else scan_rules en vd f v rest (st1\<lparr>promises := promises st1 @ [Resolved res]\<rparr>)))"
  by (simp add: test_of_def calls_of_def Let_def split_beta)


text \<open>With bail active the scan stops at the first result that is invalid.\<close>

lemma scan_rules_bail:
  assumes "p_shouldBail vd f"
    and "list_all (\<lambda>r. \<not> sync_invalid (test_of en f v r)) pre"
    and "test_of en f v a = Direct res" and "\<not> t_valid res"
  shows "scan_rules en vd f v (pre @ a # post) st =
     st\<lparr>invoked := invoked st @ concat (map (calls_of en f v) (pre @ [a])),
        promises := promises st @ map (\<lambda>r. promisify (test_of en f v r)) pre,
        errors := errors st @ t_errors res,
        isExitEarly := True\<rparr>"
  using assms(2)
proof (induction pre arbitrary: st)
  case Nil
  then show ?case using assms(1,3,4)
    by (simp add: scan_rules_Cons Let_def del: scan_rules.simps)
next
  case (Cons r pre)
  then show ?case
    by (cases "test_of en f v r") (auto simp: scan_rules_Cons Let_def simp del: scan_rules.simps)
qed



text \<open>The calls of a scan are those of its rules that have a validate function.\<close>

lemma calls_of_names:
  "map fst (concat (map (calls_of en f v) rs)) = filter (has_validator en) rs"
  by (induction rs)
    (auto simp: calls_of_def p_test_def rule_of_def has_validator_def split_beta Let_def
      split: option.splits)

lemma direct_errors:
  "test_of en f v a = Direct res \<Longrightarrow> \<not> t_valid res \<Longrightarrow>
   length (t_errors res) = 1 \<and> map e_rule (t_errors res) = [Some a] \<and> has_validator en a"
  by (auto simp: test_of_def p_test_def rule_of_def has_validator_def split_beta Let_def
      direct_result_def p_createFieldError_def split: option.splits returned.splits)

section \<open>Per-field validation with bail\<close>




section \<open>A promise that resolves to an array\<close>

text \<open>
  Claim C2, as the source has it. When the validate function of a registered rule
  returns a promise that resolves to an array of outcomes, \<^verbatim>\<open>_test\<close> gives a promise of a
  result that is valid exactly when every element is valid; when it is invalid, its one
  error is created with the empty data object, so the message is formatted with no
  data: the data of every element, the first included, is discarded. The specification
  has the data of the first element carried into the message.
\<close>

theorem test_promised_array:
  assumes "RULES en (rl_name rl) = Some entry"
    and "r_validate entry = Some g"
    and "g v (fst (test_params en f rl)) = Later (Resolved (Many vs))"
  shows "fst (p_test en f v rl) =
           Promised (Resolved
             \<lparr>t_valid = list_all outcome_valid vs,
              t_errors = (if list_all outcome_valid vs then []
                          else [p_createFieldError en f rl (Some []) (snd (test_params en f rl))])\<rparr>)
         \<and> e_msg (p_createFieldError en f rl (Some []) (snd (test_params en f rl))) =
             d_getFieldMessage (dict en) (d_locale (dict en)) (f_name f) (rl_name rl)
               (p_getFieldDisplayName (dict en) f,
                p_getLocalizedParams (dict en) rl (snd (test_params en f rl)), [])"
  using assms
  by (simp add: p_test_def split_beta Let_def resolve_values_def p_createFieldError_def
      p_formatErrorMessage_def)

theorem test_promised_array_witness:
  "RULES (sample_env None) (rl_name (rule_of (sample_env None) (sample_field [''batch'']) ''batch''))
     = Some (rule_entry_of (\<lambda>v ps. Later (Resolved
           (Many [OObj False (Some [(''taken'', JBool True)]), OBool True]))))
   \<and> fst (p_test (sample_env None) (sample_field [''batch'']) (JStr ''a'')
          (rule_of (sample_env None) (sample_field [''batch'']) ''batch'')) =
     Promised (Resolved
       \<lparr>t_valid = False,
        t_errors = [p_createFieldError (sample_env None) (sample_field [''batch''])
                      (rule_of (sample_env None) (sample_field [''batch'']) ''batch'')
                      (Some []) None]\<rparr>)"
proof -
  let ?E = "sample_env None"
  let ?F = "sample_field [''batch'']"
  let ?g = "\<lambda>(v::jsval) (ps::jsval list). Later (Resolved
           (Many [OObj False (Some [(''taken'', JBool True)]), OBool True]))"
  have h1: "RULES ?E (rl_name (rule_of ?E ?F ''batch'')) = Some (rule_entry_of ?g)"
    by (simp add: sample_defs rule_of_def)
  have h2: "r_validate (rule_entry_of ?g) = Some ?g"
    by (simp add: rule_entry_of_def)
  have h3: "?g (JStr ''a'') (fst (test_params ?E ?F (rule_of ?E ?F ''batch'')))
      = Later (Resolved (Many [OObj False (Some [(''taken'', JBool True)]), OBool True]))"
    by simp
  show ?thesis
    using h1 test_promised_array[OF h1 h2 h3]
    by (simp add: sample_defs rule_of_def test_params_def)
qed

text \<open>
  The first element of the array carries the data \<^verbatim>\<open>{ taken: true }\<close>. The message of
  the error is the one formatted without data, and differs from the one that the data
  of the first element would give.
\<close>

theorem test_promised_array_first_data_counterexample:
  "(case fst (p_test (sample_env None) (sample_field [''batch'']) (JStr ''a'')
                (rule_of (sample_env None) (sample_field [''batch'']) ''batch'')) of
      Promised (Resolved r) \<Rightarrow> map e_msg (t_errors r) = [''email:batch:'']
    | _ \<Rightarrow> False)
   \<and> p_formatErrorMessage sample_dict (sample_field [''batch''])
        (rule_of (sample_env None) (sample_field [''batch'']) ''batch'')
        (Some [(''taken'', JBool True)]) None = ''email:batch:taken''"
  by (simp add: sample_defs validate_defs)

section \<open>Disabled fields\<close>

text \<open>
  Claim C3, as the source has it. For every disabled field whose \<^verbatim>\<open>bails\<close> is not set
  to \<^verbatim>\<open>false\<close>, every value and either kind of pass, \<^verbatim>\<open>_validate\<close> returns the result
  valid with no errors and calls no validate function. The specification says this
  regardless of \<^verbatim>\<open>bails\<close>; in the source \<^verbatim>\<open>_shouldSkip\<close> first returns false for a field
  with \<^verbatim>\<open>bails === false\<close> ("configured to run through the pipeline regardless").
\<close>

theorem validate_disabled_skips:
  assumes "f_isDisabled f" and "f_bails f \<noteq> Some False"
  shows "p_validate en vd f v initial = (Inr (Resolved (field_result_of f True [])), [])"
  using assms by (simp add: p_validate_def p_shouldSkip_def)

theorem validate_disabled_skips_witness:
  "f_isDisabled ((sample_field [''never''])\<lparr>f_isDisabled := True\<rparr>)
   \<and> f_bails ((sample_field [''never''])\<lparr>f_isDisabled := True\<rparr>) \<noteq> Some False
   \<and> p_validate (sample_env None) (sample_validator [])
     ((sample_field [''never''])\<lparr>f_isDisabled := True\<rparr>) (JStr ''a'') False
   = (Inr (Resolved \<lparr>r_valid = True, r_errors = [], r_id = ''f1'', r_field = ''email'',
                     r_scope = None\<rparr>), [])"
proof -
  let ?F = "(sample_field [''never''])\<lparr>f_isDisabled := True\<rparr>"
  have h1: "f_isDisabled ?F" by simp
  have h2: "f_bails ?F \<noteq> Some False" by (simp add: sample_field_def)
  show ?thesis
    using h1 h2 validate_disabled_skips[OF h1 h2, of "sample_env None" "sample_validator []"
        "JStr ''a''" False]
    by (simp add: sample_field_def field_result_of_def)
qed

text \<open>
  A disabled field with \<^verbatim>\<open>bails: false\<close>: its rule is called and its failure reported.
\<close>

theorem validate_disabled_bails_false_counterexample:
  "(case p_validate (sample_env None) (sample_validator [])
           ((sample_field [''never''])\<lparr>f_isDisabled := True, f_bails := Some False\<rparr>)
           (JStr ''a'') False of
      (Inr (Resolved r), calls) \<Rightarrow>
        \<not> r_valid r \<and> map e_rule (r_errors r) = [Some ''never''] \<and>
        calls = [(''never'', JStr ''a'', [])]
    | _ \<Rightarrow> False)"
  by (simp add: sample_defs validate_defs)

section \<open>Bail at the first synchronous failure\<close>

text \<open>
  Claim C4, as the source has it. For every field with bail active that the skip policy
  does not skip, on a pass whose rules the filter picks without throwing: if \<open>a\<close> is the
  first rule of the pass whose result is invalid at scan time, then \<^verbatim>\<open>_validate\<close>
  resolves at once to an invalid result that holds exactly one error, the one of rule
  \<open>a\<close>, and the validate functions called are those of the rules up to \<open>a\<close>: no rule
  after \<open>a\<close> is called, whether it would fail or not. The specification states this for
  every field with bail active; a field that is skipped (disabled, or not required with
  an empty value) records no error at all, and neither does an initial pass on which
  the filter of the rules throws.
\<close>

theorem validate_bails_at_first_failure:
  assumes "p_shouldBail vd f" and "\<not> p_shouldSkip f v"
    and "selected_rules en f initial = Inr (pre @ a # post)"
    and "list_all (\<lambda>r. \<not> sync_invalid (test_of en f v r)) pre"
    and "test_of en f v a = Direct res" and "\<not> t_valid res"
  shows "p_validate en vd f v initial =
           (Inr (Resolved (field_result_of f False (t_errors res))),
            concat (map (calls_of en f v) (pre @ [a])))
         \<and> length (t_errors res) = 1 \<and> map e_rule (t_errors res) = [Some a]
         \<and> map fst (snd (p_validate en vd f v initial)) = filter (has_validator en) (pre @ [a])"
proof -
  have "scan_rules en vd f v (pre @ a # post) scan0 =
     scan0\<lparr>invoked := invoked scan0 @ concat (map (calls_of en f v) (pre @ [a])),
        promises := promises scan0 @ map (\<lambda>r. promisify (test_of en f v r)) pre,
        errors := errors scan0 @ t_errors res,
        isExitEarly := True\<rparr>"
    using assms(1,4,5,6) by (rule scan_rules_bail)
  then have v: "p_validate en vd f v initial =
           (Inr (Resolved (field_result_of f False (t_errors res))),
            concat (map (calls_of en f v) (pre @ [a])))"
    using assms(2,3) by (simp add: p_validate_def Let_def scan0_def)
  show ?thesis
    using v direct_errors[OF assms(5,6)] calls_of_names[of en f v "pre @ [a]"] by simp
qed

text \<open>
  A required field with the rules \<^verbatim>\<open>remote\<close>, \<^verbatim>\<open>never\<close>, \<^verbatim>\<open>required\<close> and the empty string,
  on an initial pass (the three rules are immediate): the last two both fail at scan
  time; one error, for \<^verbatim>\<open>never\<close>, and no call of \<^verbatim>\<open>required\<close>.
\<close>

theorem validate_bails_at_first_failure_witness:
  "p_shouldBail (sample_validator []) (sample_field [''remote'', ''never'', ''required''])
   \<and> \<not> p_shouldSkip (sample_field [''remote'', ''never'', ''required'']) (JStr [])
   \<and> selected_rules (sample_env None) (sample_field [''remote'', ''never'', ''required'']) True
       = Inr ([''remote''] @ ''never'' # [''required''])
   \<and> \<not> sync_invalid (test_of (sample_env None)
        (sample_field [''remote'', ''never'', ''required'']) (JStr []) ''remote'')
   \<and> sync_invalid (test_of (sample_env None)
        (sample_field [''remote'', ''never'', ''required'']) (JStr []) ''never'')
   \<and> sync_invalid (test_of (sample_env None)
        (sample_field [''remote'', ''never'', ''required'']) (JStr []) ''required'')
   \<and> map fst (snd (p_validate (sample_env None) (sample_validator [])
       (sample_field [''remote'', ''never'', ''required'']) (JStr []) True))
     = [''remote'', ''never'']
   \<and> (case fst (p_validate (sample_env None) (sample_validator [])
          (sample_field [''remote'', ''never'', ''required'']) (JStr []) True) of
        Inr (Resolved r) \<Rightarrow> \<not> r_valid r \<and> map e_rule (r_errors r) = [Some ''never'']
      | _ \<Rightarrow> False)"
proof -
  let ?E = "sample_env None"
  let ?V = "sample_validator []"
  let ?F = "sample_field [''remote'', ''never'', ''required'']"
  let ?res = "\<lparr>t_valid = False,
        t_errors = [p_createFieldError ?E ?F (rule_of ?E ?F ''never'') (Some []) None]\<rparr>"
  have h1: "p_shouldBail ?V ?F" by (simp add: p_shouldBail_def sample_defs)
  have h2: "\<not> p_shouldSkip ?F (JStr [])" by (simp add: p_shouldSkip_def sample_defs)
  have h3: "selected_rules ?E ?F True = Inr ([''remote''] @ ''never'' # [''required''])"
    by (simp add: selected_rules_def runs_on_pass_def lookup_rule_def sample_defs)
  have h4: "list_all (\<lambda>r. \<not> sync_invalid (test_of ?E ?F (JStr []) r)) [''remote'']"
    by (simp add: sample_defs validate_defs)
  have h5: "test_of ?E ?F (JStr []) ''never'' = Direct ?res"
    by (simp add: sample_defs validate_defs)
  have h6: "\<not> t_valid ?res" by simp
  have h7: "sync_invalid (test_of ?E ?F (JStr []) ''required'')"
    by (simp add: sample_defs validate_defs)
  show ?thesis
    using h1 h2 h3 h4 h5 h7 validate_bails_at_first_failure[OF h1 h2 h3 h4 h5 h6]
    by (simp add: sample_defs validate_defs has_validator_def)
qed

text \<open>
  The same two failing rules on a field that is skipped, a required field that is
  disabled, with the empty string: bail is active, both rules fail on the value, and no
  error is recorded. And on a field that is not skipped, with the name \<^verbatim>\<open>constructor\<close>
  (not registered) after them, on an initial pass: the filter of the rules throws, so
  that no rule is called and no error recorded.
\<close>

theorem validate_skipped_field_counterexample:
  "p_shouldBail (sample_validator [])
     ((sample_field [''never'', ''required''])\<lparr>f_isDisabled := True\<rparr>)
   \<and> sync_invalid (test_of (sample_env None)
        ((sample_field [''never'', ''required''])\<lparr>f_isDisabled := True\<rparr>) (JStr []) ''never'')
   \<and> sync_invalid (test_of (sample_env None)
        ((sample_field [''never'', ''required''])\<lparr>f_isDisabled := True\<rparr>) (JStr []) ''required'')
   \<and> p_validate (sample_env None) (sample_validator [])
        ((sample_field [''never'', ''required''])\<lparr>f_isDisabled := True\<rparr>) (JStr []) False
      = (Inr (Resolved \<lparr>r_valid = True, r_errors = [], r_id = ''f1'', r_field = ''email'',
                        r_scope = None\<rparr>), [])
   \<and> p_shouldBail (sample_validator []) (sample_field [''never'', ''required'', ''constructor''])
   \<and> \<not> p_shouldSkip (sample_field [''never'', ''required'', ''constructor'']) (JStr [])
   \<and> sync_invalid (test_of (sample_env None)
        (sample_field [''never'', ''required'', ''constructor'']) (JStr []) ''never'')
   \<and> sync_invalid (test_of (sample_env None)
        (sample_field [''never'', ''required'', ''constructor'']) (JStr []) ''required'')
   \<and> p_validate (sample_env None) (sample_validator [])
        (sample_field [''never'', ''required'', ''constructor'']) (JStr []) True
      = (Inl (TypeError ''cannot read immediate of undefined''), [])"
  by (simp add: sample_defs validate_defs inherited_keys_def)

section \<open>The entry points\<close>

text \<open>
  Claim C5. Whenever the validator is paused, \<^verbatim>\<open>validate\<close>, \<^verbatim>\<open>validateAll\<close> and
  \<^verbatim>\<open>validateScopes\<close> each return a promise already resolved to true and leave the
  validator as it was, for all arguments: the fields with their flags and the error bag
  are unchanged, and no validate function is called.
\<close>

theorem paused_is_noop:
  assumes "v_paused vd"
  shows "validate en vd fd v opts = (Inr (Resolved True), vd, [])
       \<and> validateAll en vd vals opts = (Inr (Resolved True), vd, [])
       \<and> validateScopes en vd opts = (Inr (Resolved True), vd, [])"
  using assms by (simp add: validate_def validateAll_def validateScopes_def)

text \<open>
  A validator with one field whose rule fails. Paused, the three calls change nothing;
  the same call on the validator when it is not paused resolves to false, adds an error
  and writes the flags.
\<close>

theorem paused_is_noop_witness:
  "v_paused ((sample_validator [sample_field [''never'']])\<lparr>v_paused := True\<rparr>)
   \<and> validate (sample_env None) ((sample_validator [sample_field [''never'']])\<lparr>v_paused := True\<rparr>)
      (Some ''email'') (JStr ''a'') noOpts
     = (Inr (Resolved True), (sample_validator [sample_field [''never'']])\<lparr>v_paused := True\<rparr>, [])
   \<and> validateAll (sample_env None) ((sample_validator [sample_field [''never'']])\<lparr>v_paused := True\<rparr>)
       VNone noOpts
     = (Inr (Resolved True), (sample_validator [sample_field [''never'']])\<lparr>v_paused := True\<rparr>, [])
   \<and> validateScopes (sample_env None)
       ((sample_validator [sample_field [''never'']])\<lparr>v_paused := True\<rparr>) noOpts
     = (Inr (Resolved True), (sample_validator [sample_field [''never'']])\<lparr>v_paused := True\<rparr>, [])
   \<and> (case validate (sample_env None) (sample_validator [sample_field [''never'']])
        (Some ''email'') (JStr ''a'') noOpts of
        (r, vd, calls) \<Rightarrow>
          r = Inr (Resolved False) \<and> map e_rule (items (v_errors vd)) = [Some ''never''] \<and>
          map f_flags (v_fields vd) = [\<lparr>pending = False, valid = Some False, validated = True\<rparr>] \<and>
          calls = [(''never'', JStr ''a'', [])])"
proof -
  let ?V = "(sample_validator [sample_field [''never'']])\<lparr>v_paused := True\<rparr>"
  have h: "v_paused ?V" by simp
  have u: "(case validate (sample_env None) (sample_validator [sample_field [''never'']])
        (Some ''email'') (JStr ''a'') noOpts of
        (r, vd, calls) \<Rightarrow>
          r = Inr (Resolved False) \<and> map e_rule (items (v_errors vd)) = [Some ''never''] \<and>
          map f_flags (v_fields vd) = [\<lparr>pending = False, valid = Some False, validated = True\<rparr>] \<and>
          calls = [(''never'', JStr ''a'', [])])"
    by (simp add: sample_defs validate_defs entry_defs bag_defs)
  show ?thesis
    using h u paused_is_noop[OF h, of "sample_env None" "Some ''email''" "JStr ''a''" noOpts VNone]
    by simp
qed

text \<open>
  Claim C6. For a descriptor of a single field that resolves to no field, \<^verbatim>\<open>validate\<close>
  is \<^verbatim>\<open>return this._handleFieldNotFound(name)\<close>, where \<^verbatim>\<open>name\<close> is not the descriptor
  (the parameter is \<^verbatim>\<open>fieldDescriptor\<close>) but an identifier the function does not declare.
  Where the global scope binds \<^verbatim>\<open>name\<close>, the call rejects with the error for a field that
  does not exist when the validator is strict, and resolves to true when it is not,
  without touching errors or flags; the message names the global's value, not the
  descriptor. Where nothing binds \<^verbatim>\<open>name\<close>, reading it throws a ReferenceError before
  the strict flag is looked at, in both modes.
\<close>

theorem validate_unresolved_field:
  assumes "\<not> v_paused vd" and "fd \<noteq> ''*''" and "scope_wildcard fd = None"
    and "p_resolveField vd fd None Wildcard = None"
  shows "validate en vd (Some fd) v opts =
     (case global_name en of
        None \<Rightarrow> (Inl (ReferenceError ''name is not defined''), vd, [])
      | Some n \<Rightarrow>
          (Inr (if v_strict vd
                then Rejected (createError
                  (''Validating a non-existent field: '' @ [dquote] @ n @ [dquote] @
                   ''. Use '' @ [dquote] @ ''attach()'' @ [dquote] @ '' first.''))
                else Resolved True), vd, []))"
  using assms by (simp add: validate_def p_handleFieldNotFound_def split: option.splits)

text \<open>
  A validator without fields and the descriptor \<^verbatim>\<open>nonexistent\<close>: with no binding of
  \<^verbatim>\<open>name\<close> the call throws, strict or not; with \<^verbatim>\<open>name\<close> bound to the empty string it
  resolves to true when not strict, and rejects when strict with a message that quotes
  the empty string.
\<close>

theorem validate_unresolved_field_witness:
  "\<not> v_paused (sample_validator [])
   \<and> scope_wildcard ''nonexistent'' = None
   \<and> p_resolveField (sample_validator []) ''nonexistent'' None Wildcard = None
   \<and> p_resolveField ((sample_validator [])\<lparr>v_strict := False\<rparr>) ''nonexistent'' None Wildcard = None
   \<and> validate (sample_env None) ((sample_validator [])\<lparr>v_strict := False\<rparr>)
      (Some ''nonexistent'') JUndefined noOpts
     = (Inl (ReferenceError ''name is not defined''), (sample_validator [])\<lparr>v_strict := False\<rparr>, [])
   \<and> validate (sample_env None) (sample_validator []) (Some ''nonexistent'') JUndefined noOpts
     = (Inl (ReferenceError ''name is not defined''), sample_validator [], [])
   \<and> validate (sample_env (Some [])) ((sample_validator [])\<lparr>v_strict := False\<rparr>)
      (Some ''nonexistent'') JUndefined noOpts
     = (Inr (Resolved True), (sample_validator [])\<lparr>v_strict := False\<rparr>, [])
   \<and> validate (sample_env (Some [])) (sample_validator []) (Some ''nonexistent'') JUndefined noOpts
     = (Inr (Rejected (Error (''Validating a non-existent field: '' @ [dquote, dquote] @
          ''. Use '' @ [dquote] @ ''attach()'' @ [dquote] @ '' first.''))), sample_validator [], [])"
proof -
  let ?S = "sample_validator []"
  let ?N = "(sample_validator [])\<lparr>v_strict := False\<rparr>"
  have p: "\<not> v_paused ?S" "\<not> v_paused ?N" by (simp_all add: sample_defs)
  have n: "''nonexistent'' \<noteq> ''*''" by simp
  have w: "scope_wildcard ''nonexistent'' = None" by (simp add: scope_wildcard_def)
  have r: "p_resolveField ?S ''nonexistent'' None Wildcard = None"
    "p_resolveField ?N ''nonexistent'' None Wildcard = None"
    by (simp_all add: sample_defs entry_defs isNullOrUndefined_def)
  show ?thesis
    using p(1) w r
      validate_unresolved_field[OF p(2) n w r(2), of "sample_env None" JUndefined noOpts]
      validate_unresolved_field[OF p(1) n w r(1), of "sample_env None" JUndefined noOpts]
      validate_unresolved_field[OF p(2) n w r(2), of "sample_env (Some [])" JUndefined noOpts]
      validate_unresolved_field[OF p(1) n w r(1), of "sample_env (Some [])" JUndefined noOpts]
    by (simp add: sample_env_def sample_validator_def createError_def)
qed
section \<open>Queries of the error bag\<close>

text \<open>
  Claim C7, as the source has it. For every selector that does not start with \<^verbatim>\<open>#\<close> and
  in which the pattern finds a name (the selector holds a letter, a digit or one of
  \<^verbatim>\<open>_ - .\<close>), and for every content of the bag: \<^verbatim>\<open>first\<close> returns the message of the
  earliest item that satisfies the primary predicate (name equal to the selector's
  name, rule equal to its rule if it has one, scope equal to its scope, or no scope if
  it has none) when there is one; otherwise that of the last item that satisfies the alt
  predicate (rule as before, and a field name equal to the text "scope.name", where a
  missing scope is printed as \<^verbatim>\<open>undefined\<close>); otherwise \<^verbatim>\<open>undefined\<close>. \<^verbatim>\<open>_match\<close> returns
  the item itself, and over an empty bag the empty accumulator. The specification
  gives the alt predicate as the equality of the field name alone, and states the
  policy for every selector; in the source \<^verbatim>\<open>isAlt\<close> is
  \<^verbatim>\<open>matchesRule(item) && item.field === ...\<close>, and a selector without a name character
  makes the destructuring of the failed match throw.
\<close>

theorem first_two_tier:
  assumes "selector_match (make_selector field scope) = Some (sc0, nm, rl0)"
    and "\<not> startsWith (make_selector field scope) ''#''"
  shows
    "(let sc = map_option (replace_first CHR ''.'') sc0;
          rl = map_option (replace_first CHR '':'') rl0;
          hit = (case List.find (isPrimary sc nm rl) (items b) of
                   Some p \<Rightarrow> Some p
                 | None \<Rightarrow> List.find (isAlt sc nm rl) (rev (items b)))
      in first b field scope = Inr (map_option e_msg hit) \<and>
         p_match b (Some (make_selector field scope)) =
           Inr (if items b = [] then Acc None None else Ret hit))"
proof (cases "items b = []")
  case True
  then show ?thesis
    using assms by (simp add: first_def p_match_def filters_of_selector Let_def)
next
  case False
  then show ?thesis
    using assms
    by (simp add: first_def p_match_def filters_of_selector Let_def match_reduce_filters
        split: option.splits)
qed

text \<open>
  The selector \<^verbatim>\<open>s.foo\<close> on three bags: the first of two primary matches wins over the
  alt matches around it; without a primary match the last alt match is returned;
  without either, \<^verbatim>\<open>undefined\<close>.
\<close>

theorem first_two_tier_witness:
  "selector_match (make_selector ''foo'' (Some ''s'')) = Some (Some ''s.'', ''foo'', None)
   \<and> \<not> startsWith (make_selector ''foo'' (Some ''s'')) ''#''
   \<and> first \<lparr>items = [sample_error ''1'' ''s.foo'' None ''alt1'',
                     sample_error ''2'' ''foo'' (Some ''s'') ''prim1'',
                     sample_error ''3'' ''foo'' (Some ''s'') ''prim2'',
                     sample_error ''4'' ''s.foo'' None ''alt2'']\<rparr> ''foo'' (Some ''s'')
     = Inr (Some ''prim1'')
   \<and> first \<lparr>items = [sample_error ''1'' ''s.foo'' None ''alt1'',
                     sample_error ''2'' ''foo'' (Some ''t'') ''other'',
                     sample_error ''4'' ''s.foo'' (Some ''u'') ''alt2'',
                     sample_error ''5'' ''bar'' None ''last'']\<rparr> ''foo'' (Some ''s'')
     = Inr (Some ''alt2'')
   \<and> first \<lparr>items = [sample_error ''2'' ''foo'' (Some ''t'') ''other'']\<rparr> ''foo'' (Some ''s'')
     = Inr None"
proof -
  have h1: "selector_match (make_selector ''foo'' (Some ''s'')) = Some (Some ''s.'', ''foo'', None)"
    by (simp add: bag_defs)
  have h2: "\<not> startsWith (make_selector ''foo'' (Some ''s'')) ''#''"
    by (simp add: bag_defs)
  show ?thesis
    using h1 h2
      first_two_tier[OF h1 h2, of
        "\<lparr>items = [sample_error ''1'' ''s.foo'' None ''alt1'',
                     sample_error ''2'' ''foo'' (Some ''s'') ''prim1'',
                     sample_error ''3'' ''foo'' (Some ''s'') ''prim2'',
                     sample_error ''4'' ''s.foo'' None ''alt2'']\<rparr>"]
      first_two_tier[OF h1 h2, of
        "\<lparr>items = [sample_error ''1'' ''s.foo'' None ''alt1'',
                     sample_error ''2'' ''foo'' (Some ''t'') ''other'',
                     sample_error ''4'' ''s.foo'' (Some ''u'') ''alt2'',
                     sample_error ''5'' ''bar'' None ''last'']\<rparr>"]
      first_two_tier[OF h1 h2, of
        "\<lparr>items = [sample_error ''2'' ''foo'' (Some ''t'') ''other'']\<rparr>"]
    by (simp add: sample_error_def replace_first_def isPrimary_def isAlt_def matchesName_def
        matchesRule_def matchesScope_def isNullOrUndefined_def show_opt_def Let_def)
qed

text \<open>
  Two selectors that do not start with \<^verbatim>\<open>#\<close>. With the selector \<^verbatim>\<open>s.foo:min\<close> and a bag
  whose one item has the field name \<^verbatim>\<open>s.foo\<close> and the rule \<^verbatim>\<open>required\<close>, no item satisfies
  the primary predicate and the item's field name is literally "scope.name", yet
  \<^verbatim>\<open>first\<close> returns \<^verbatim>\<open>undefined\<close>: the alt predicate of the source tests the rule as well.
  The empty selector holds no name character, and \<^verbatim>\<open>first\<close> throws instead of returning
  a match or none.
\<close>

theorem first_alt_rule_and_unparsed_counterexample:
  "e_field (sample_error ''1'' ''s.foo'' None ''m'') = ''s'' @ ''.'' @ ''foo''
   \<and> first \<lparr>items = [sample_error ''1'' ''s.foo'' None ''m'']\<rparr> ''foo:min'' (Some ''s'') = Inr None
   \<and> first \<lparr>items = [sample_error ''1'' ''s.foo'' None ''m'']\<rparr> ''foo'' (Some ''s'')
     = Inr (Some ''m'')
   \<and> first \<lparr>items = [sample_error ''1'' ''foo'' None ''m'']\<rparr> [] None
     = Inl (TypeError ''null is not iterable'')"
  by (simp add: sample_defs bag_defs)

text \<open>
  Claim C8. For a selector that starts with \<^verbatim>\<open>#\<close>, \<^verbatim>\<open>_makeCandidateFilters\<close> returns one
  function in the place of the object \<^verbatim>\<open>{ isPrimary, isAlt }\<close> (and that function returns
  the id test as a function, never its value). The three queries built on the filters
  take \<^verbatim>\<open>isPrimary\<close> from what is returned, find it \<^verbatim>\<open>undefined\<close>, and call it on the first
  item: on every bag that is not empty, \<^verbatim>\<open>first\<close>, \<^verbatim>\<open>collect\<close> and \<^verbatim>\<open>remove\<close> throw a
  TypeError for every such selector, so no item is selected by its id.
\<close>

theorem id_selector_queries_throw:
  assumes "startsWith field ''#''" and "selector_match field \<noteq> None" and "items b \<noteq> []"
  shows "first b field None = Inl (TypeError ''isPrimary is not a function'')
       \<and> collect b (Some field) None mp = Inl (TypeError ''isPrimary is not a function'')
       \<and> remove_sel b (Some field) None = Inl (TypeError ''isPrimary is not a function'')"
proof -
  obtain g where g: "p_makeCandidateFilters field = Inr (IdFilter g :: 'a candidate)"
    using id_filters[OF assms(1,2)] by blast
  have ne: "field \<noteq> []" using assms(1) by (auto simp: startsWith_def)
  show ?thesis
    using g ne assms(3)
    by (simp add: first_def p_match_def collect_def remove_sel_def make_selector_def
        match_reduce_undefined collect_filter_undefined remove_loop_undefined)
qed

text \<open>A bag with one error of the field with id \<^verbatim>\<open>f1\<close>, queried with \<^verbatim>\<open>#f1\<close>.\<close>

theorem id_selector_queries_throw_witness:
  "startsWith ''#f1'' ''#'' \<and> selector_match ''#f1'' \<noteq> None
   \<and> items \<lparr>items = [sample_error ''f1'' ''email'' None ''m'']\<rparr> \<noteq> []
   \<and> first \<lparr>items = [sample_error ''f1'' ''email'' None ''m'']\<rparr> ''#f1'' None
     = Inl (TypeError ''isPrimary is not a function'')
   \<and> collect \<lparr>items = [sample_error ''f1'' ''email'' None ''m'']\<rparr> (Some ''#f1'') None True
     = Inl (TypeError ''isPrimary is not a function'')
   \<and> remove_sel \<lparr>items = [sample_error ''f1'' ''email'' None ''m'']\<rparr> (Some ''#f1'') None
     = Inl (TypeError ''isPrimary is not a function'')"
proof -
  have h1: "startsWith ''#f1'' ''#''" by (simp add: startsWith_def)
  have h2: "selector_match ''#f1'' \<noteq> None" by (simp add: bag_defs)
  have h3: "items \<lparr>items = [sample_error ''f1'' ''email'' None ''m'']\<rparr> \<noteq> []" by simp
  show ?thesis
    using h1 h2 id_selector_queries_throw[OF h1 h2 h3, of True] by simp
qed

section \<open>Updating and regenerating errors\<close>

text \<open>
  Claim C9. When the first error with the given id is \<open>item\<close>, between the errors \<open>pre\<close>
  before it (none of which has the id) and \<open>post\<close> after it, \<^verbatim>\<open>update(id, { scope })\<close>
  leaves the bag with \<open>pre\<close>, then \<open>post\<close>, then \<open>item\<close> with its scope set to the new
  scope: the error is taken from its place and appended, the others are unchanged and
  keep their order. When no error has the id the bag is unchanged. Every bag that holds
  an error with the id splits in this way.
\<close>

theorem update_relocates_first_match:
  "(items b = pre @ item # post \<and> e_id item = Some ident \<and>
      list_all (\<lambda>i. e_id i \<noteq> Some ident) pre
      \<longrightarrow> update b ident sc = b\<lparr>items := pre @ post @ [item\<lparr>e_scope := sc\<rparr>]\<rparr>)
   \<and> (list_all (\<lambda>i. e_id i \<noteq> Some ident) (items b) \<longrightarrow> update b ident sc = b)
   \<and> (list_ex (\<lambda>i. e_id i = Some ident) (items b) \<longrightarrow>
        (\<exists>pre item post. items b = pre @ item # post \<and> e_id item = Some ident \<and>
           list_all (\<lambda>i. e_id i \<noteq> Some ident) pre))"
proof (intro conjI impI)
  assume "items b = pre @ item # post \<and> e_id item = Some ident \<and>
      list_all (\<lambda>i. e_id i \<noteq> Some ident) pre"
  then show "update b ident sc = b\<lparr>items := pre @ post @ [item\<lparr>e_scope := sc\<rparr>]\<rparr>"
    by (simp add: update_split)
next
  assume "list_all (\<lambda>i. e_id i \<noteq> Some ident) (items b)"
  then have "List.find (\<lambda>i. e_id i = Some ident) (items b) = None"
    by (simp add: find_none_all)
  then show "update b ident sc = b" by (simp add: update_def)
next
  assume "list_ex (\<lambda>i. e_id i = Some ident) (items b)"
  then have "\<exists>x\<in>set (items b). e_id x = Some ident" by (simp add: list_ex_iff)
  then obtain pre item post where "items b = pre @ item # post" "e_id item = Some ident"
    "\<forall>y\<in>set pre. e_id y \<noteq> Some ident"
    using split_list_first_prop[of "items b" "\<lambda>x. e_id x = Some ident"] by blast
  then show "\<exists>pre item post. items b = pre @ item # post \<and> e_id item = Some ident \<and>
           list_all (\<lambda>i. e_id i \<noteq> Some ident) pre"
    by (auto simp: list_all_iff)
qed

text \<open>
  Four errors, two of them with the id \<^verbatim>\<open>2\<close>: the first of the two moves to the end
  with the new scope. A bag without the id stays as it is.
\<close>

theorem update_relocates_first_match_witness:
  "e_id (sample_error ''2'' ''b'' None ''m2'') = Some ''2''
   \<and> list_all (\<lambda>i. e_id i \<noteq> Some ''2'') [sample_error ''1'' ''a'' None ''m1'']
   \<and> update \<lparr>items = [sample_error ''1'' ''a'' None ''m1''] @ sample_error ''2'' ''b'' None ''m2'' #
                      [sample_error ''3'' ''c'' None ''m3'', sample_error ''2'' ''d'' None ''m4'']\<rparr>
      ''2'' (Some ''s'')
     = \<lparr>items = [sample_error ''1'' ''a'' None ''m1'', sample_error ''3'' ''c'' None ''m3'',
                  sample_error ''2'' ''d'' None ''m4'', sample_error ''2'' ''b'' (Some ''s'') ''m2'']\<rparr>
   \<and> list_all (\<lambda>i. e_id i \<noteq> Some ''2'')
        [sample_error ''1'' ''a'' None ''m1'', sample_error ''3'' ''c'' None ''m3'']
   \<and> update \<lparr>items = [sample_error ''1'' ''a'' None ''m1'', sample_error ''3'' ''c'' None ''m3'']\<rparr>
       ''2'' (Some ''s'')
     = \<lparr>items = [sample_error ''1'' ''a'' None ''m1'', sample_error ''3'' ''c'' None ''m3'']\<rparr>"
proof -
  let ?pre = "[sample_error ''1'' ''a'' None ''m1'']"
  let ?item = "sample_error ''2'' ''b'' None ''m2''"
  let ?post = "[sample_error ''3'' ''c'' None ''m3'', sample_error ''2'' ''d'' None ''m4'']"
  let ?b = "\<lparr>items = ?pre @ ?item # ?post\<rparr>"
  let ?c = "\<lparr>items = [sample_error ''1'' ''a'' None ''m1'', sample_error ''3'' ''c'' None ''m3'']\<rparr>"
  have h1: "items ?b = ?pre @ ?item # ?post \<and> e_id ?item = Some ''2'' \<and>
      list_all (\<lambda>i. e_id i \<noteq> Some ''2'') ?pre"
    by (simp add: sample_error_def)
  have h2: "list_all (\<lambda>i. e_id i \<noteq> Some ''2'') (items ?c)"
    by (simp add: sample_error_def)
  have m1: "update ?b ''2'' (Some ''s'') = ?b\<lparr>items := ?pre @ ?post @ [?item\<lparr>e_scope := Some ''s''\<rparr>]\<rparr>"
    using update_relocates_first_match[of ?b ?pre ?item ?post "''2''" "Some ''s''"] h1 by blast
  have m2: "update ?c ''2'' (Some ''s'') = ?c"
    using update_relocates_first_match[of ?c "[]" ?item "[]" "''2''" "Some ''s''"] h2 by blast
  show ?thesis using h1 h2 m1 m2 by (simp add: sample_error_def)
qed

text \<open>
  Claim C10. \<^verbatim>\<open>regenerate\<close> keeps the number of errors and their order; the message of
  each error becomes the result of its \<^verbatim>\<open>regenerate\<close> closure when that is callable and
  stays as it is otherwise; every other property of every error is unchanged (the
  errors before and after are equal once the messages are blanked); and an error added
  through the deprecated form of \<^verbatim>\<open>add\<close>, which stores \<^verbatim>\<open>regenerate: null\<close>, is the same
  whether it is added before or after regenerating.
\<close>

theorem regenerate_msg_only:
  "length (items (regenerate w b)) = length (items b)
   \<and> map e_msg (items (regenerate w b))
       = map (\<lambda>i. case e_regenerate i of Some g \<Rightarrow> g w | None \<Rightarrow> e_msg i) (items b)
   \<and> map (\<lambda>i. i\<lparr>e_msg := []\<rparr>) (items (regenerate w b)) = map (\<lambda>i. i\<lparr>e_msg := []\<rparr>) (items b)
   \<and> regenerate w (add b (AddLegacy fld m r s)) = add (regenerate w b) (AddLegacy fld m r s)"
  by (simp add: regenerate_def regenerateItem_def add_def normalizeScope_def isNullOrUndefined_def)

text \<open>
  An error added in the deprecated form keeps its message; one whose closure returns
  the locale gets the locale as its message.
\<close>

theorem regenerate_msg_only_witness:
  "map e_msg (items (regenerate sample_dict
      (add (add emptyBag (AddLegacy ''email'' ''old'' (Some ''required'') None))
         (AddOne ((sample_error ''1'' ''age'' None ''stale'')\<lparr>e_regenerate := Some d_locale\<rparr>)))))
     = [''old'', ''en'']"
  using regenerate_msg_only[of sample_dict
      "add (add emptyBag (AddLegacy ''email'' ''old'' (Some ''required'') None))
         (AddOne ((sample_error ''1'' ''age'' None ''stale'')\<lparr>e_regenerate := Some d_locale\<rparr>))"]
  by (simp add: sample_defs add_def normalizeScope_def isNullOrUndefined_def)

end
